theory Spec2Isabelle
  imports Complex_Main "HOL-Library.Product_Lexorder"
begin

section \<open>JavaScript values read by the frontend\<close>

text \<open>
  The frontend (\<^verbatim>\<open>Frontend/src/utils/api.js\<close>, \<^verbatim>\<open>App.jsx\<close>,
  \<^verbatim>\<open>hooks/useChat.js\<close>, \<^verbatim>\<open>components/ChatInput.jsx\<close>) is embedded function by
  function. A JavaScript exception is a value \<open>Error msg\<close>: the handlers only ever read
  the \<^verbatim>\<open>message\<close> of what they catch. Strings are lists of 8-bit characters.
\<close>

datatype js_error = Error (message: string)

text \<open>\<^verbatim>\<open>a || b\<close> on an optional string: \<^verbatim>\<open>undefined\<close> and the empty string are falsy.\<close>

definition truthy :: "string option \<Rightarrow> bool" where
  "truthy v = (case v of None \<Rightarrow> False | Some s \<Rightarrow> s \<noteq> [])"

definition or_else :: "string option \<Rightarrow> string \<Rightarrow> string" where
  "or_else v d = (case v of None \<Rightarrow> d | Some s \<Rightarrow> if s = [] then d else s)"

text \<open>\<^verbatim>\<open>String.prototype.includes\<close>: the argument occurs as a contiguous substring.\<close>

fun starts_with :: "string \<Rightarrow> string \<Rightarrow> bool" where
  "starts_with s [] = True"
| "starts_with [] (p # ps) = False"
| "starts_with (c # cs) (p # ps) = (c = p \<and> starts_with cs ps)"

fun str_includes :: "string \<Rightarrow> string \<Rightarrow> bool" where
  "str_includes [] p = (p = [])"
| "str_includes (c # cs) p = (starts_with (c # cs) p \<or> str_includes cs p)"

text \<open>
  \<^verbatim>\<open>String.prototype.trim\<close> removes white space and line terminators from both ends.
  Among 8-bit characters these are TAB, LF, VT, FF, CR, SPACE and NBSP.
\<close>

definition js_whitespace :: "char \<Rightarrow> bool" where
  "js_whitespace c = (c \<in> set [CHR 0x09, CHR 0x0A, CHR 0x0B, CHR 0x0C, CHR 0x0D, CHR 0x20, CHR 0xA0])"

definition trim :: "string \<Rightarrow> string" where
  "trim s = rev (dropWhile js_whitespace (rev (dropWhile js_whitespace s)))"

text \<open>\<^verbatim>\<open>toLowerCase\<close>, on the ASCII letters.\<close>

definition lower_char :: "char \<Rightarrow> char" where
  "lower_char c =
     (let n = (of_char c :: nat) in if 65 \<le> n \<and> n \<le> 90 then char_of (n + 32) else c)"

definition toLowerCase :: "string \<Rightarrow> string" where
  "toLowerCase s = map lower_char s"

subsection \<open>Files and validation (\<^verbatim>\<open>api.js\<close>)\<close>

text \<open>A browser \<^verbatim>\<open>File\<close>: its name, MIME type and size in bytes.\<close>

record js_file =
  file_name :: string
  file_type :: string
  file_size :: nat

text \<open>
  \<^verbatim>\<open>validateFile\<close> throws when the type does not contain \<^verbatim>\<open>pdf\<close> or the size
  exceeds 10 MB, and returns \<^verbatim>\<open>true\<close> otherwise.
\<close>

definition validateFile :: "js_file \<Rightarrow> js_error + bool" where
  "validateFile f =
     (if \<not> str_includes (file_type f) ''pdf'' then Inl (Error ''Please upload a PDF file only.'')
      else if file_size f > 10 * 1024 * 1024 then Inl (Error ''File size must be less than 10MB.'')
      else Inr True)"

subsection \<open>Backend requests and responses\<close>

text \<open>
  The four \<^verbatim>\<open>fetch\<close> calls of \<^verbatim>\<open>APIService\<close>, named by HTTP method and by the
  endpoint constant of \<^verbatim>\<open>API_CONFIG.ENDPOINTS\<close> they address: the uploaded file, the
  file name in the path, the JSON body \<^verbatim>\<open>{text, filename}\<close>, and no argument.
\<close>

datatype request =
    POST_UPLOAD_PDF js_file
  | POST_VECTORIZE string
  | POST_ASK string "string option"
  | GET_FILES

text \<open>
  The two inbound calls the specification names: \<^verbatim>\<open>ingest\<close>, which the client performs
  as the upload of the file followed by its vectorization, and \<^verbatim>\<open>answer\<close>.
\<close>

fun is_ingest_or_answer :: "request \<Rightarrow> bool" where
  "is_ingest_or_answer (POST_UPLOAD_PDF f) = True"
| "is_ingest_or_answer (POST_VECTORIZE n) = True"
| "is_ingest_or_answer (POST_ASK q n) = True"
| "is_ingest_or_answer GET_FILES = False"

text \<open>An entry of the backend's file list; the UI reads \<^verbatim>\<open>filename\<close> and \<^verbatim>\<open>status\<close>.\<close>

record file_info =
  filename :: "string option"
  status :: "string option"

text \<open>A source citation of an answer, passed through to the message unchanged.\<close>

record source =
  src_document :: string
  src_chunk :: nat
  src_text :: string

text \<open>
  A parsed JSON response body, as far as the frontend reads it: \<^verbatim>\<open>detail\<close> of an
  error body, \<^verbatim>\<open>answer\<close> and \<^verbatim>\<open>sources\<close> of an answer, \<^verbatim>\<open>files\<close> and
  \<^verbatim>\<open>total_files\<close> of a file list. An absent field is \<open>None\<close>; \<open>j_detail\<close> is the
  text that \<^verbatim>\<open>new Error(error.detail)\<close> takes as its message.
\<close>

record json_obj =
  j_detail :: "string option"
  j_answer :: "string option"
  j_sources :: "source list option"
  j_files :: "file_info list option"
  j_total_files :: "nat option"

text \<open>
  What \<^verbatim>\<open>await fetch(...)\<close> gives: the promise rejects (network failure), or it
  resolves to a response with its \<^verbatim>\<open>ok\<close> flag and the outcome of \<^verbatim>\<open>response.json()\<close>,
  which itself rejects when the body is not JSON (\<open>Inl\<close> also stands for a body that is
  not an object, whose fields cannot be read).
\<close>

datatype fetched = Rejected js_error | Resolved bool "js_error + json_obj"

subsection \<open>UI state (\<^verbatim>\<open>useChat.js\<close>)\<close>

text \<open>
  What a search handler is given: a string (the default \<^verbatim>\<open>''\<close> of
  \<^verbatim>\<open>fetchAvailableFiles\<close>, the \<^verbatim>\<open>''\<close> of \<^verbatim>\<open>setSearchTerm\<close>), or the change event of
  the search box, which \<^verbatim>\<open>FileSelector\<close> hands to \<^verbatim>\<open>handleFileSearch\<close> as it is (the
  event of an input holding the given text).
\<close>

datatype search_value = SearchText string | ChangeEvent string

datatype msg_type = User | AI | System

record message =
  msg_id :: real
  mtype :: msg_type
  content :: string
  timestamp :: nat
  sources :: "source list option"
  isNewestMessage :: "bool option"
  showFileSelector :: bool
  msg_availableFiles :: "file_info list"
  msg_totalFiles :: nat

record chat =
  chat_id :: real
  title :: string
  messages :: "message list"
  uploadedFile :: "string option"
  createdAt :: nat

text \<open>
  The React state of \<^verbatim>\<open>useChat\<close>, the value of the hidden file input, the timer held
  in \<^verbatim>\<open>searchTimeoutRef\<close> (the argument its callback will load the files with, \<open>None\<close>
  when no timer is pending), and three logs of what the handlers do to the outside: the
  backend requests issued, the texts shown by \<^verbatim>\<open>alert\<close>, and the number of calls of
  \<^verbatim>\<open>scrollToBottom\<close>.
\<close>

record ui_state =
  chats :: "chat list"
  currentChatId :: real
  inputMessage :: string
  availableFiles :: "file_info list"
  searchTerm :: search_value
  searchTimer :: "search_value option"
  totalFiles :: nat
  isLoading :: bool
  isUploading :: bool
  isSearching :: bool
  backendError :: "string option"
  fileInputValue :: string
  requests :: "request list"
  alerts :: "string list"
  scrolls :: nat

text \<open>
  The environment of one handler run: how the backend answers a request given the
  requests before it, and the values of the \<open>k\<close>-th \<^verbatim>\<open>generateMessageId()\<close> and
  \<^verbatim>\<open>new Date()\<close>.
\<close>

record env =
  backend :: "request list \<Rightarrow> request \<Rightarrow> fetched"
  genId :: "nat \<Rightarrow> real"
  now :: "nat \<Rightarrow> nat"

subsection \<open>Asynchronous code as state passing with exceptions\<close>

type_synonym 'a js = "ui_state \<Rightarrow> (js_error + 'a) \<times> ui_state"

definition js_return :: "'a \<Rightarrow> 'a js" where
  "js_return x = (\<lambda>s. (Inr x, s))"

definition js_throw :: "js_error \<Rightarrow> 'a js" where
  "js_throw e = (\<lambda>s. (Inl e, s))"

definition js_bind :: "'a js \<Rightarrow> ('a \<Rightarrow> 'b js) \<Rightarrow> 'b js" where
  "js_bind m f = (\<lambda>s. case m s of (Inl e, s') \<Rightarrow> (Inl e, s') | (Inr x, s') \<Rightarrow> f x s')"

definition js_then :: "unit js \<Rightarrow> 'b js \<Rightarrow> 'b js" where
  "js_then m n = js_bind m (\<lambda>_. n)"

definition js_modify :: "(ui_state \<Rightarrow> ui_state) \<Rightarrow> unit js" where
  "js_modify f = (\<lambda>s. (Inr (), f s))"

text \<open>\<^verbatim>\<open>try { m } catch (error) { h(error) }\<close>\<close>

definition try_catch :: "'a js \<Rightarrow> (js_error \<Rightarrow> 'a js) \<Rightarrow> 'a js" where
  "try_catch m h = (\<lambda>s. case m s of (Inl e, s') \<Rightarrow> h e s' | (Inr x, s') \<Rightarrow> (Inr x, s'))"

text \<open>\<^verbatim>\<open>try { m } finally { fin }\<close>: \<open>fin\<close> runs either way; the outcome of \<open>m\<close> stands.\<close>

definition try_finally :: "'a js \<Rightarrow> unit js \<Rightarrow> 'a js" where
  "try_finally m fin =
     (\<lambda>s. case m s of (r, s') \<Rightarrow>
        (case fin s' of (Inl e, s'') \<Rightarrow> (Inl e, s'') | (Inr _, s'') \<Rightarrow> (r, s'')))"

definition do_fetch :: "env \<Rightarrow> request \<Rightarrow> fetched js" where
  "do_fetch ev r = (\<lambda>s. (Inr (backend ev (requests s) r), s\<lparr>requests := requests s @ [r]\<rparr>))"

definition alert :: "string \<Rightarrow> unit js" where
  "alert msg = js_modify (\<lambda>s. s\<lparr>alerts := alerts s @ [msg]\<rparr>)"

definition scrollToBottom :: "unit js" where
  "scrollToBottom = js_modify (\<lambda>s. s\<lparr>scrolls := Suc (scrolls s)\<rparr>)"

subsection \<open>The API client (\<^verbatim>\<open>APIService\<close> in \<^verbatim>\<open>api.js\<close>)\<close>

text \<open>
  Each method awaits one \<^verbatim>\<open>fetch\<close>. On a response that is not \<^verbatim>\<open>ok\<close> the first three
  parse the error body and throw its \<^verbatim>\<open>detail\<close> (or a default text); \<^verbatim>\<open>getFiles\<close>
  throws a fixed text without reading the body.
\<close>

definition call_json :: "env \<Rightarrow> request \<Rightarrow> string \<Rightarrow> json_obj js" where
  "call_json ev r dflt =
     js_bind (do_fetch ev r) (\<lambda>response. case response of
         Rejected e \<Rightarrow> js_throw e
       | Resolved ok body \<Rightarrow>
           (if \<not> ok then
              (case body of
                 Inl e \<Rightarrow> js_throw e
               | Inr err \<Rightarrow> js_throw (Error (or_else (j_detail err) dflt)))
            else (case body of Inl e \<Rightarrow> js_throw e | Inr j \<Rightarrow> js_return j)))"

definition uploadFile :: "env \<Rightarrow> js_file \<Rightarrow> json_obj js" where
  "uploadFile ev f = call_json ev (POST_UPLOAD_PDF f) ''Upload failed''"

definition vectorizeDocument :: "env \<Rightarrow> string \<Rightarrow> json_obj js" where
  "vectorizeDocument ev fname = call_json ev (POST_VECTORIZE fname) ''Vectorization failed''"

definition askQuestion :: "env \<Rightarrow> string \<Rightarrow> string option \<Rightarrow> json_obj js" where
  "askQuestion ev question fname = call_json ev (POST_ASK question fname) ''Failed to get response''"

definition getFiles :: "env \<Rightarrow> json_obj js" where
  "getFiles ev =
     js_bind (do_fetch ev GET_FILES) (\<lambda>response. case response of
         Rejected e \<Rightarrow> js_throw e
       | Resolved ok body \<Rightarrow>
           (if \<not> ok then js_throw (Error ''Failed to fetch files'')
            else (case body of Inl e \<Rightarrow> js_throw e | Inr j \<Rightarrow> js_return j)))"

text \<open>
  The object literals \<^verbatim>\<open>uploadAndVectorize\<close> returns, as the list of their keys and
  values in the order written. Reading a key that is absent gives \<^verbatim>\<open>undefined\<close>
  (\<open>None\<close>).
\<close>

datatype js_value = JBool bool | JString string | JObject json_obj

type_synonym js_object = "(string \<times> js_value) list"

definition js_truthy :: "js_value option \<Rightarrow> bool" where
  "js_truthy v =
     (case v of
        None \<Rightarrow> False
      | Some (JBool b) \<Rightarrow> b
      | Some (JString t) \<Rightarrow> t \<noteq> []
      | Some (JObject j) \<Rightarrow> True)"

definition js_text :: "js_value option \<Rightarrow> string option" where
  "js_text v = (case v of Some (JString t) \<Rightarrow> Some t | _ \<Rightarrow> None)"

definition uploadAndVectorize :: "env \<Rightarrow> js_file \<Rightarrow> js_object js" where
  "uploadAndVectorize ev f =
     try_catch
       (js_bind (uploadFile ev f) (\<lambda>uploadResult.
        js_bind (vectorizeDocument ev (file_name f)) (\<lambda>vectorizeResult.
        js_return [(''success'', JBool True), (''upload'', JObject uploadResult),
          (''vectorization'', JObject vectorizeResult), (''filename'', JString (file_name f))])))
       (\<lambda>error. js_return [(''success'', JBool False), (''error'', JString (message error)),
          (''filename'', JString (file_name f))])"

text \<open>
  The two object literals of \<^verbatim>\<open>uploadAndVectorize\<close> by name: the one it returns from the
  \<^verbatim>\<open>try\<close> block, with the bodies of the two responses, and the one it returns from the
  \<^verbatim>\<open>catch\<close> block, with the message of what was thrown.
\<close>

definition success_object :: "js_file \<Rightarrow> json_obj \<Rightarrow> json_obj \<Rightarrow> js_object" where
  "success_object f u v =
     [(''success'', JBool True), (''upload'', JObject u), (''vectorization'', JObject v),
      (''filename'', JString (file_name f))]"

definition failure_object :: "js_file \<Rightarrow> string \<Rightarrow> js_object" where
  "failure_object f msg =
     [(''success'', JBool False), (''error'', JString msg), (''filename'', JString (file_name f))]"

text \<open>
  The shape the specification gives the result of the inbound ingest call: an object with
  a \<^verbatim>\<open>status\<close> and, beside it, a \<^verbatim>\<open>vector_count\<close> or an \<^verbatim>\<open>error\<close>.
\<close>

definition has_spec_shape :: "js_object \<Rightarrow> bool" where
  "has_spec_shape obj =
     (map_of obj ''status'' \<noteq> None
      \<and> (map_of obj ''vector_count'' \<noteq> None \<or> map_of obj ''error'' \<noteq> None))"

subsection \<open>Chat helpers (\<^verbatim>\<open>useChat.js\<close>)\<close>

definition currentChat :: "ui_state \<Rightarrow> chat option" where
  "currentChat s = find (\<lambda>c. chat_id c = currentChatId s) (chats s)"

text \<open>
  \<^verbatim>\<open>updateCurrentChat(updates)\<close> merges \<^verbatim>\<open>updates\<close> into every chat whose id is the
  \<^verbatim>\<open>currentChatId\<close> the handler closed over; the merge is the function \<open>upd\<close>.
\<close>

definition updateCurrentChat :: "real \<Rightarrow> (chat \<Rightarrow> chat) \<Rightarrow> unit js" where
  "updateCurrentChat cid upd =
     js_modify (\<lambda>s. s\<lparr>chats := map (\<lambda>c. if chat_id c = cid then upd c else c) (chats s)\<rparr>)"

definition generateChatTitle :: "string \<Rightarrow> string" where
  "generateChatTitle m = (if length m > 30 then take 30 m @ ''...'' else m)"

text \<open>
  A message object literal with the \<open>k\<close>-th generated id and date of the run; the fields a
  literal does not mention are \<^verbatim>\<open>undefined\<close> (\<open>None\<close>, \<open>False\<close>, empty).
\<close>

definition new_message :: "env \<Rightarrow> nat \<Rightarrow> msg_type \<Rightarrow> string \<Rightarrow> message" where
  "new_message ev k ty txt =
     \<lparr>msg_id = genId ev k, mtype = ty, content = txt, timestamp = now ev k, sources = None,
      isNewestMessage = None, showFileSelector = False, msg_availableFiles = [],
      msg_totalFiles = 0\<rparr>"

definition clear_newest :: "message list \<Rightarrow> message list" where
  "clear_newest ms = map (\<lambda>m. m\<lparr>isNewestMessage := Some False\<rparr>) ms"

text \<open>The emoji of the message texts, as their UTF-8 bytes; the double quote.\<close>

definition check_mark :: string where
  "check_mark = [CHR 0xE2, CHR 0x9C, CHR 0x85]"

definition cross_mark :: string where
  "cross_mark = [CHR 0xE2, CHR 0x9D, CHR 0x8C]"

definition dquote :: string where
  "dquote = [CHR 0x22]"

text \<open>The message of the TypeError of reading \<^verbatim>\<open>currentChat.messages\<close> with no current chat.\<close>

definition no_current_chat :: js_error where
  "no_current_chat = Error ''Cannot read properties of undefined (reading messages)''"

subsection \<open>\<^verbatim>\<open>App.jsx\<close>: loading the file list\<close>

text \<open>
  \<^verbatim>\<open>search && search.trim()\<close> is evaluated after the file list has arrived. On a change
  event it throws, an event having no \<^verbatim>\<open>trim\<close>; the \<^verbatim>\<open>catch\<close> block takes it.
\<close>

definition trim_not_a_function :: js_error where
  "trim_not_a_function = Error ''search.trim is not a function''"

definition fetchAvailableFiles :: "env \<Rightarrow> search_value \<Rightarrow> unit js" where
  "fetchAvailableFiles ev search =
     try_finally
       (try_catch
          (js_then (js_modify (\<lambda>s. s\<lparr>isSearching := True\<rparr>))
          (js_then (js_modify (\<lambda>s. s\<lparr>backendError := None\<rparr>))
          (js_bind (getFiles ev) (\<lambda>result.
             let files0 = (case j_files result of None \<Rightarrow> [] | Some fs \<Rightarrow> fs)
             in (case search of
                   ChangeEvent v \<Rightarrow> js_throw trim_not_a_function
                 | SearchText needle \<Rightarrow>
                     (let files =
                        (if needle \<noteq> [] \<and> trim needle \<noteq> [] then
                           filter (\<lambda>f. case filename f of
                                     None \<Rightarrow> False
                                   | Some n \<Rightarrow> str_includes (toLowerCase n) (toLowerCase needle)) files0
                         else files0)
                      in js_then (js_modify (\<lambda>s. s\<lparr>availableFiles := files\<rparr>))
                           (js_modify (\<lambda>s. s\<lparr>totalFiles :=
                              (case j_total_files result of
                                 None \<Rightarrow> length files
                               | Some n \<Rightarrow> if n = 0 then length files else n)\<rparr>))))))))
          (\<lambda>error.
             js_then (js_modify (\<lambda>s. s\<lparr>backendError := Some (''Failed to load files: '' @ message error)\<rparr>))
            (js_then (js_modify (\<lambda>s. s\<lparr>availableFiles := []\<rparr>))
                     (js_modify (\<lambda>s. s\<lparr>totalFiles := 0\<rparr>)))))
       (js_modify (\<lambda>s. s\<lparr>isSearching := False\<rparr>))"

text \<open>
  \<^verbatim>\<open>handleFileSearch\<close> stores what it is given as the search term, clears the timer that
  is pending, if any, and arms a new one of 300 ms; it loads nothing itself. When a timer
  that is still armed runs out, its callback loads the file list with the value the timer
  was armed with (\<open>searchTimerFires\<close>; how long that takes is not modelled). A timer that
  was cleared never fires. \<^verbatim>\<open>clearSearch\<close> empties the term and loads the list; it leaves
  a pending timer armed.
\<close>

definition handleFileSearch :: "search_value \<Rightarrow> unit js" where
  "handleFileSearch v =
     js_then (js_modify (\<lambda>s. s\<lparr>searchTerm := v\<rparr>))
             (js_modify (\<lambda>s. s\<lparr>searchTimer := Some v\<rparr>))"

definition searchTimerFires :: "env \<Rightarrow> unit js" where
  "searchTimerFires ev = (\<lambda>s0.
     (case searchTimer s0 of
        None \<Rightarrow> js_return ()
      | Some v \<Rightarrow>
          js_then (js_modify (\<lambda>s. s\<lparr>searchTimer := None\<rparr>)) (fetchAvailableFiles ev v))
       s0)"

definition clearSearch :: "env \<Rightarrow> unit js" where
  "clearSearch ev =
     js_then (js_modify (\<lambda>s. s\<lparr>searchTerm := SearchText []\<rparr>))
             (fetchAvailableFiles ev (SearchText []))"

subsection \<open>\<^verbatim>\<open>App.jsx\<close>: \<^verbatim>\<open>handleFileSelect\<close>\<close>

text \<open>
  Selecting a listed file: the argument is the entry's \<^verbatim>\<open>filename\<close>, which may be
  absent. Whatever the body throws is caught and dropped.
\<close>

definition handleFileSelect :: "env \<Rightarrow> string option \<Rightarrow> unit js" where
  "handleFileSelect ev selected = (\<lambda>s0.
     let cid = currentChatId s0; cur = currentChat s0 in
     (if \<not> truthy selected then js_return ()
      else
        (let fname = or_else selected [] in
         try_catch
           (js_then (updateCurrentChat cid (\<lambda>c. c\<lparr>uploadedFile := Some fname\<rparr>))
              (let newMessage = new_message ev 0 System
                     (check_mark @ '' PDF '' @ dquote @ fname @ dquote @
                      '' is now loaded! You can ask questions about its content.'')
               in (case cur of
                     None \<Rightarrow> js_throw no_current_chat
                   | Some c0 \<Rightarrow>
                       js_then (updateCurrentChat cid
                                  (\<lambda>c. c\<lparr>messages := messages c0 @ [newMessage]\<rparr>))
                         (js_then (js_modify (\<lambda>s. s\<lparr>searchTerm := SearchText []\<rparr>))
                            scrollToBottom))))
           (\<lambda>error. js_return ())))
       s0)"

subsection \<open>\<^verbatim>\<open>App.jsx\<close>: \<^verbatim>\<open>handleFileUpload\<close>\<close>

text \<open>
  The event carries \<^verbatim>\<open>event.target.files[0]\<close>, \<open>None\<close> when no file was chosen. The
  handler reads \<^verbatim>\<open>currentChat\<close> and \<^verbatim>\<open>currentChatId\<close> as they were when it was called.
\<close>

definition handleFileUpload :: "env \<Rightarrow> js_file option \<Rightarrow> unit js" where
  "handleFileUpload ev event = (\<lambda>s0.
     let cid = currentChatId s0; cur = currentChat s0 in
     (case event of
        None \<Rightarrow> js_return ()
      | Some f \<Rightarrow>
          (case validateFile f of
             Inl error \<Rightarrow> alert (message error)
           | Inr _ \<Rightarrow>
               js_then (js_modify (\<lambda>s. s\<lparr>isUploading := True\<rparr>))
                 (try_finally
                    (try_catch
                       (js_bind (uploadAndVectorize ev f) (\<lambda>result.
                          if js_truthy (map_of result ''success'') then
                            js_then (updateCurrentChat cid (\<lambda>c. c\<lparr>uploadedFile := Some (file_name f)\<rparr>))
                              (let newMessage = new_message ev 0 System
                                     (check_mark @ '' PDF '' @ dquote @ file_name f @ dquote @
                                      '' uploaded and processed successfully! You can now ask questions about its content.'')
                               in (case cur of
                                     None \<Rightarrow> js_throw no_current_chat
                                   | Some c0 \<Rightarrow>
                                       js_then (updateCurrentChat cid
                                                  (\<lambda>c. c\<lparr>messages := messages c0 @ [newMessage]\<rparr>))
                                         (js_then (fetchAvailableFiles ev (SearchText []))
                                            scrollToBottom)))
                          else js_throw (Error (or_else (js_text (map_of result ''error''))
                                                  ''Upload failed''))))
                       (\<lambda>error. alert (''Upload failed: '' @ message error)))
                    (js_then (js_modify (\<lambda>s. s\<lparr>isUploading := False\<rparr>))
                             (js_modify (\<lambda>s. s\<lparr>fileInputValue := []\<rparr>))))))
       s0)"

subsection \<open>\<^verbatim>\<open>App.jsx\<close>: \<^verbatim>\<open>handleSendMessage\<close> and the send button\<close>

text \<open>
  The handler closes over \<^verbatim>\<open>inputMessage\<close>, \<^verbatim>\<open>isLoading\<close>, \<^verbatim>\<open>currentChat\<close>,
  \<^verbatim>\<open>currentChatId\<close>, \<^verbatim>\<open>availableFiles\<close> and \<^verbatim>\<open>totalFiles\<close> of the state it is
  called in. No statement of its \<^verbatim>\<open>try\<close> block can throw after \<^verbatim>\<open>updatedMessages\<close> is
  reassigned, so the \<^verbatim>\<open>catch\<close> block sees the list that ends with the user message.
\<close>

definition handleSendMessage :: "env \<Rightarrow> unit js" where
  "handleSendMessage ev = (\<lambda>s0.
     let input = inputMessage s0; cid = currentChatId s0; cur = currentChat s0 in
     (if trim input = [] \<or> isLoading s0 then js_return ()
      else
        (case cur of
           None \<Rightarrow> js_throw no_current_chat
         | Some c0 \<Rightarrow>
            (let userMessage = new_message ev 0 User (trim input);
                 updatedMessages = messages c0 @ [userMessage];
                 userMessages = filter (\<lambda>m. mtype m = User) updatedMessages
             in
             js_then
               (if length userMessages = 1 then
                  updateCurrentChat cid
                    (\<lambda>c. c\<lparr>title := generateChatTitle (trim input), messages := updatedMessages\<rparr>)
                else updateCurrentChat cid (\<lambda>c. c\<lparr>messages := updatedMessages\<rparr>))
            (js_then (js_modify (\<lambda>s. s\<lparr>inputMessage := []\<rparr>))
            (js_then (js_modify (\<lambda>s. s\<lparr>isLoading := True\<rparr>))
            (try_finally
               (try_catch
                  (case uploadedFile c0 of
                     None \<Rightarrow>
                       js_then (fetchAvailableFiles ev (SearchText []))
                         (let filePromptMessage =
                                (new_message ev 1 AI
                                   ''Please select a PDF document from your uploaded files to ask questions about:'')
                                \<lparr>showFileSelector := True, msg_availableFiles := [], msg_totalFiles := 0\<rparr>;
                              withPrompt = updatedMessages @ [filePromptMessage]
                          in js_then (updateCurrentChat cid (\<lambda>c. c\<lparr>messages := withPrompt\<rparr>))
                            (js_then (fetchAvailableFiles ev (SearchText []))
                               (let updatedFileMessage =
                                      filePromptMessage\<lparr>msg_availableFiles := availableFiles s0,
                                        msg_totalFiles := totalFiles s0\<rparr>;
                                    finalMessages =
                                      map (\<lambda>m. if msg_id m = msg_id filePromptMessage
                                                then updatedFileMessage else m) withPrompt
                                in updateCurrentChat cid (\<lambda>c. c\<lparr>messages := finalMessages\<rparr>))))
                   | Some fname \<Rightarrow>
                       js_bind (askQuestion ev (trim input) (Some fname)) (\<lambda>response.
                         if truthy (j_answer response) then
                           (let aiMessage =
                                  (new_message ev 1 AI (or_else (j_answer response) []))
                                  \<lparr>sources := Some (case j_sources response of
                                                     None \<Rightarrow> [] | Some srcs \<Rightarrow> srcs),
                                    isNewestMessage := Some True\<rparr>
                            in updateCurrentChat cid
                                 (\<lambda>c. c\<lparr>messages := clear_newest updatedMessages @ [aiMessage]\<rparr>))
                         else js_throw (Error ''No answer received from the server'')))
                  (\<lambda>error.
                     let errorMessage =
                           (new_message ev 1 AI
                              (cross_mark @ '' Sorry, I encountered an error: '' @ message error @
                               ''. Please try again.''))
                           \<lparr>isNewestMessage := Some True\<rparr>
                     in updateCurrentChat cid
                          (\<lambda>c. c\<lparr>messages := clear_newest updatedMessages @ [errorMessage]\<rparr>)))
               (js_then (js_modify (\<lambda>s. s\<lparr>isLoading := False\<rparr>)) scrollToBottom)))))))
       s0)"

text \<open>The \<^verbatim>\<open>disabled\<close> attribute of the send button in \<^verbatim>\<open>ChatInput\<close> and \<^verbatim>\<open>WelcomeScreen\<close>.\<close>

definition send_disabled :: "ui_state \<Rightarrow> bool" where
  "send_disabled s = (trim (inputMessage s) = [] \<or> isLoading s)"

section \<open>The ingestion and answering core\<close>

text \<open>
  The backend (\<^verbatim>\<open>Backend/simple_rag.py\<close>, \<^verbatim>\<open>main.py\<close>, \<^verbatim>\<open>database.py\<close>) is not among
  the sources. The definitions of this section follow the specification's sections 3 and
  4; the external collaborators (text extraction, chunking, the embedding model, the
  availability of the vector database, the LLM) are parameters.
\<close>

subsection \<open>VectorIndex\<close>

text \<open>
  Modelled from the spec: the vector record of section 3 (the backend's Pinecone records
  are missing): an embedding with the metadata document filename, chunk index and text
  snippet.
\<close>

record vector_record =
  vr_embedding :: "real list"
  vr_document :: string
  vr_chunk_index :: nat
  vr_text :: string

text \<open>
  Modelled from the spec: the dot product under the cosine similarity of section 4.4 (the
  vector database's metric is missing), over the reals. A zero vector has similarity 0 to
  everything, as division by zero is 0 in HOL.
\<close>

definition dot :: "real list \<Rightarrow> real list \<Rightarrow> real" where
  "dot u v = sum_list (map2 (*) u v)"

text \<open>
  Modelled from the spec: the similarity itself (missing with the vector database): the
  dot product over the product of the norms.
\<close>

definition cosine :: "real list \<Rightarrow> real list \<Rightarrow> real" where
  "cosine u v = dot u v / (sqrt (dot u u) * sqrt (dot v v))"

text \<open>
  Modelled from the spec: \<^verbatim>\<open>VectorIndex.upsert\<close> of section 4.4 (missing): the record
  replaces the one with the same (document, chunk index) key.
\<close>

definition upsert :: "vector_record list \<Rightarrow> vector_record \<Rightarrow> vector_record list" where
  "upsert idx r =
     filter (\<lambda>x. \<not> (vr_document x = vr_document r \<and> vr_chunk_index x = vr_chunk_index r)) idx @ [r]"

text \<open>
  Modelled from the spec: the metadata filter of \<^verbatim>\<open>VectorIndex.query\<close> (missing): no
  filter, or the record's document equals the given filename.
\<close>

definition passes_filter :: "string option \<Rightarrow> vector_record \<Rightarrow> bool" where
  "passes_filter flt r = (case flt of None \<Rightarrow> True | Some f \<Rightarrow> vr_document r = f)"

text \<open>
  Modelled from the spec: the ranking of \<^verbatim>\<open>VectorIndex.query\<close> (missing): descending
  similarity, ties by ascending chunk index, as the lexicographic order on the pair
  (negated similarity, chunk index).
\<close>

definition rank_key :: "real list \<Rightarrow> vector_record \<Rightarrow> real \<times> nat" where
  "rank_key q r = (- cosine q (vr_embedding r), vr_chunk_index r)"

text \<open>
  Modelled from the spec: \<^verbatim>\<open>VectorIndex.query\<close> of section 4.4 (missing): the records
  passing the filter, in rank order, cut to \<open>top_k\<close>.
\<close>

definition query :: "real list \<Rightarrow> nat \<Rightarrow> string option \<Rightarrow> vector_record list \<Rightarrow> vector_record list" where
  "query q top_k flt idx = take top_k (sort_key (rank_key q) (filter (passes_filter flt) idx))"

subsection \<open>DocumentRegistry\<close>

text \<open>
  Modelled from the spec: the stages an ingestion can fail in (\<^verbatim>\<open>simple_rag.py\<close> is
  missing): the deletion of the vectors of an earlier upload, extraction, chunking,
  embedding and the vector write.
\<close>

datatype stage = Cleanup | Extraction | Chunking | Embedding | Upsert

text \<open>
  Modelled from the spec: the states of the machine of section 4.5 (\<^verbatim>\<open>database.py\<close> is
  missing); the error state carries the failing stage and the message.
\<close>

datatype doc_status =
    Uploaded | Extracting | ChunkingText | EmbeddingChunks | Vectorized
  | ErrorStatus stage string

text \<open>
  Modelled from the spec: the Document row of section 3 (\<^verbatim>\<open>database.py\<close> is missing).
\<close>

record document =
  doc_status :: doc_status
  vector_count :: nat
  byte_size :: nat

text \<open>
  Modelled from the spec: the states in which an ingestion attempt is in flight (section
  4.5; missing).
\<close>

definition in_flight :: "doc_status \<Rightarrow> bool" where
  "in_flight st = (st = Extracting \<or> st = ChunkingText \<or> st = EmbeddingChunks)"

text \<open>
  Modelled from the spec: the two stores of the core (missing): the metadata store, one
  row per filename, and the content of the vector database.
\<close>

record core_state =
  registry :: "string \<rightharpoonup> document"
  index :: "vector_record list"

text \<open>
  Modelled from the spec: recording a transition on the document's row (section 4.5;
  missing).
\<close>

definition set_status :: "string \<Rightarrow> doc_status \<Rightarrow> core_state \<Rightarrow> core_state" where
  "set_status fname st cs =
     cs\<lparr>registry := (registry cs)(fname :=
          map_option (\<lambda>d. d\<lparr>doc_status := st\<rparr>) (registry cs fname))\<rparr>"

subsection \<open>IngestionPipeline\<close>

text \<open>
  Modelled from the spec: the Chunk of section 3 (missing): sequential index, text span
  and raw text.
\<close>

record chunk =
  ch_index :: nat
  ch_offset :: nat
  ch_length :: nat
  ch_text :: string

text \<open>
  Modelled from the spec: the collaborators of the pipeline and of the answerer (sections
  4.1 to 4.4 and 6; missing), as parameters: the Extractor and the Chunker on a document,
  the Embedder on the \<open>n\<close>-th text it is given, whether the vector database accepts the
  \<open>n\<close>-th write and the \<open>n\<close>-th delete of a run and whether it answers queries, and the
  LLM on a question and a context. \<open>Inl msg\<close> is the failure of the stage.
\<close>

record collaborators =
  extractor :: "nat list \<Rightarrow> string + string"
  chunker :: "string \<Rightarrow> string + chunk list"
  embed :: "nat \<Rightarrow> string \<Rightarrow> string + real list"
  upsert_ok :: "nat \<Rightarrow> bool"
  delete_ok :: "nat \<Rightarrow> bool"
  query_ok :: bool
  llm :: "string \<Rightarrow> string \<Rightarrow> string + string"

text \<open>
  Modelled from the spec: \<^verbatim>\<open>VectorIndex.delete\<close> of section 4.4 (missing): removes all
  vectors of a document, or fails with \<^verbatim>\<open>IndexUnavailable\<close> when the vector database
  does not accept the \<open>n\<close>-th delete of the run (retries exhausted); a failed delete
  removes nothing.
\<close>

definition delete_document ::
  "collaborators \<Rightarrow> nat \<Rightarrow> vector_record list \<Rightarrow> string \<Rightarrow> string + vector_record list" where
  "delete_document cb n idx doc =
     (if delete_ok cb n then Inr (filter (\<lambda>r. vr_document r \<noteq> doc) idx)
      else Inl ''IndexUnavailable'')"

text \<open>
  Modelled from the spec: what \<^verbatim>\<open>ingest\<close> returns (section 6; missing): the status and
  the vector count, or the failing stage and its message, or the rejection of section 4.5.
\<close>

datatype ingest_outcome =
    Completed doc_status nat
  | StageFailure stage string
  | ConcurrentIngestionError

text \<open>
  Modelled from the spec: the embedding stage of section 4.6 (missing), chunk by chunk:
  embed the chunk, write its vector; \<open>n\<close> counts the vectors written so far. It stops at
  the first failure and leaves what it has written.
\<close>

fun embed_and_upsert ::
  "collaborators \<Rightarrow> string \<Rightarrow> chunk list \<Rightarrow> nat \<Rightarrow> vector_record list
     \<Rightarrow> (stage \<times> string + nat) \<times> vector_record list" where
  "embed_and_upsert cb fname [] n idx = (Inr n, idx)"
| "embed_and_upsert cb fname (c # cs) n idx =
     (case embed cb n (ch_text c) of
        Inl msg \<Rightarrow> (Inl (Embedding, msg), idx)
      | Inr v \<Rightarrow>
          if upsert_ok cb n then
            embed_and_upsert cb fname cs (Suc n)
              (upsert idx \<lparr>vr_embedding = v, vr_document = fname, vr_chunk_index = ch_index c,
                 vr_text = ch_text c\<rparr>)
          else (Inl (Upsert, ''IndexUnavailable''), idx))"

text \<open>
  Modelled from the spec: the compensating action of section 4.6 (missing): delete the
  document's vectors (the second delete of the run) and mark the row \<open>ErrorStatus\<close> with
  the stage; the count of vectors that had been written is kept on the row (section 3).
  When the delete fails too, the vectors stay and the row is marked all the same.
\<close>

definition compensate ::
  "collaborators \<Rightarrow> string \<Rightarrow> stage \<Rightarrow> string \<Rightarrow> nat \<Rightarrow> core_state \<Rightarrow> ingest_outcome \<times> core_state" where
  "compensate cb fname stg msg written cs =
     (StageFailure stg msg,
      cs\<lparr>index := (case delete_document cb 1 (index cs) fname of
                     Inl unavailable \<Rightarrow> index cs
                   | Inr idx \<Rightarrow> idx),
         registry := (registry cs)(fname :=
           map_option (\<lambda>d. d\<lparr>doc_status := ErrorStatus stg msg, vector_count := written\<rparr>)
             (registry cs fname))\<rparr>)"

text \<open>
  Modelled from the spec: the single-flight test of section 4.5 (missing): the filename
  has a row whose state is in flight.
\<close>

definition row_in_flight :: "string \<Rightarrow> core_state \<Rightarrow> bool" where
  "row_in_flight fname cs =
     (case registry cs fname of None \<Rightarrow> False | Some d \<Rightarrow> in_flight (doc_status d))"

text \<open>
  Modelled from the spec: the start of an attempt (section 4.5; missing): the row restarts
  at \<open>Uploaded\<close> and the first stage is recorded.
\<close>

definition restart_row :: "string \<Rightarrow> nat list \<Rightarrow> core_state \<Rightarrow> core_state" where
  "restart_row fname raw cs =
     set_status fname Extracting
       (cs\<lparr>registry := (registry cs)(fname \<mapsto>
             \<lparr>doc_status = Uploaded, vector_count = 0, byte_size = length raw\<rparr>)\<rparr>)"

text \<open>
  Modelled from the spec: the successful end of an attempt (section 4.6; missing): the row
  is marked \<open>Vectorized\<close> with the count of vectors written.
\<close>

definition mark_vectorized :: "string \<Rightarrow> nat \<Rightarrow> core_state \<Rightarrow> core_state" where
  "mark_vectorized fname n cs =
     (let cs4 = set_status fname Vectorized cs
      in cs4\<lparr>registry := (registry cs4)(fname :=
               map_option (\<lambda>d. d\<lparr>vector_count := n\<rparr>) (registry cs4 fname))\<rparr>)"

text \<open>
  Modelled from the spec: \<^verbatim>\<open>IngestionPipeline.ingest\<close> of sections 4.5 and 4.6
  (missing). A request for a filename in flight is rejected. Otherwise the row restarts,
  each stage is recorded before it runs, and the vectors of an earlier upload are deleted
  before anything else is done; any failure ends in the compensating action.
\<close>

definition ingest :: "collaborators \<Rightarrow> string \<Rightarrow> nat list \<Rightarrow> core_state \<Rightarrow> ingest_outcome \<times> core_state" where
  "ingest cb fname raw cs =
     (if row_in_flight fname cs then (ConcurrentIngestionError, cs)
      else
        let cs1 = restart_row fname raw cs
        in (case delete_document cb 0 (index cs1) fname of
              Inl msg \<Rightarrow> compensate cb fname Cleanup msg 0 cs1
            | Inr idx0 \<Rightarrow>
                (case extractor cb raw of
                   Inl msg \<Rightarrow> compensate cb fname Extraction msg 0 (cs1\<lparr>index := idx0\<rparr>)
                 | Inr text \<Rightarrow>
                     let cs2 = set_status fname ChunkingText (cs1\<lparr>index := idx0\<rparr>)
                     in (case chunker cb text of
                           Inl msg \<Rightarrow> compensate cb fname Chunking msg 0 cs2
                         | Inr chunks \<Rightarrow>
                             let cs3 = set_status fname EmbeddingChunks cs2
                             in (case embed_and_upsert cb fname chunks 0 (index cs3) of
                                   (Inl (stg, msg), idx) \<Rightarrow>
                                     compensate cb fname stg msg
                                       (length (filter (\<lambda>r. vr_document r = fname) idx))
                                       (cs3\<lparr>index := idx\<rparr>)
                                 | (Inr n, idx) \<Rightarrow>
                                     (Completed Vectorized n,
                                      mark_vectorized fname n (cs3\<lparr>index := idx\<rparr>)))))))"

subsection \<open>Ingestion attempts in steps\<close>






subsection \<open>RetrievalAnswerer\<close>

text \<open>
  Modelled from the spec: the tuning constants of section 4.7 (missing): \<open>top_k\<close> and the
  context budget in characters.
\<close>

record answer_config =
  top_k :: nat
  context_budget :: nat

text \<open>
  Modelled from the spec: the typed failures of answering (sections 4.7 and 7; missing).
\<close>

datatype answer_error = EmbeddingError string | IndexUnavailable | AnswerGenerationError string

text \<open>
  Modelled from the spec: the Answer of section 3 (missing): the text and the ordered
  sources.
\<close>

record rag_answer =
  ans_text :: string
  ans_sources :: "source list"

text \<open>
  Modelled from the spec: the context block of section 4.7, step 4 (missing): the chunk
  texts in rank order.
\<close>

definition assemble_context :: "vector_record list \<Rightarrow> string" where
  "assemble_context rs = concat (map vr_text rs)"

text \<open>
  Modelled from the spec: the truncation of section 4.7, step 4 (missing): while the block
  exceeds the budget, the lowest-ranked chunk is dropped.
\<close>

function fit_budget :: "nat \<Rightarrow> vector_record list \<Rightarrow> vector_record list" where
  "fit_budget b rs = (if length (assemble_context rs) \<le> b then rs else fit_budget b (butlast rs))"
  by pat_completeness auto
termination
proof (relation "measure (\<lambda>(b, rs). length rs)")
  show "wf (measure (\<lambda>(b :: nat, rs :: vector_record list). length rs))"
    by simp
next
  fix b :: nat and rs :: "vector_record list"
  assume "\<not> length (assemble_context rs) \<le> b"
  then have "rs \<noteq> []"
    by (auto simp: assemble_context_def)
  then show "((b, butlast rs), (b, rs)) \<in> measure (\<lambda>(b, rs). length rs)"
    by (cases rs) simp_all
qed

declare fit_budget.simps [simp del]

text \<open>
  Modelled from the spec: the source entry of a chunk (section 4.7, step 6; missing): its
  filename and chunk metadata.
\<close>

definition source_of :: "vector_record \<Rightarrow> source" where
  "source_of r = \<lparr>src_document = vr_document r, src_chunk = vr_chunk_index r, src_text = vr_text r\<rparr>"

text \<open>
  Modelled from the spec: the fixed answer of section 4.7, step 3 (missing); the spec does
  not give its text.
\<close>

definition no_relevant_content :: rag_answer where
  "no_relevant_content = \<lparr>ans_text = ''No relevant content found.'', ans_sources = []\<rparr>"

text \<open>
  Modelled from the spec: \<^verbatim>\<open>RetrievalAnswerer.answer\<close> of section 4.7 (missing). The
  second component is the list of (question, context) calls made to the LLM.
\<close>

definition answer ::
  "answer_config \<Rightarrow> collaborators \<Rightarrow> string \<Rightarrow> string option \<Rightarrow> vector_record list
     \<Rightarrow> (answer_error + rag_answer) \<times> (string \<times> string) list" where
  "answer cfg cb question flt idx =
     (case embed cb 0 question of
        Inl msg \<Rightarrow> (Inl (EmbeddingError msg), [])
      | Inr q \<Rightarrow>
          if \<not> query_ok cb then (Inl IndexUnavailable, [])
          else
            let results = query q (top_k cfg) flt idx in
            if results = [] then (Inr no_relevant_content, [])
            else
              let included = fit_budget (context_budget cfg) results;
                  context = assemble_context included
              in (case llm cb question context of
                    Inl msg \<Rightarrow> (Inl (AnswerGenerationError msg), [(question, context)])
                  | Inr text \<Rightarrow>
                      (Inr \<lparr>ans_text = text, ans_sources = map source_of included\<rparr>,
                       [(question, context)])))"

section \<open>Concrete inputs\<close>

text \<open>The state \<^verbatim>\<open>useChat\<close> starts in: one chat holding the greeting, nothing loading.\<close>

definition greeting :: message where
  "greeting = \<lparr>msg_id = 1, mtype = AI,
     content = ''Our own Large Language Model (LLM) is a type of AI that can learn from data. We have trained it on 7 billion parameters which makes it better than other LLMs. Upload a file and Get started!'',
     timestamp = 0, sources = None, isNewestMessage = None, showFileSelector = False,
     msg_availableFiles = [], msg_totalFiles = 0\<rparr>"

definition initial_state :: ui_state where
  "initial_state =
     \<lparr>chats = [\<lparr>chat_id = 1, title = ''New Chat'', messages = [greeting], uploadedFile = None,
                createdAt = 0\<rparr>],
      currentChatId = 1, inputMessage = [], availableFiles = [], searchTerm = SearchText [],
      searchTimer = None, totalFiles = 0,
      isLoading = False, isUploading = False, isSearching = False, backendError = None,
      fileInputValue = [], requests = [], alerts = [], scrolls = 0\<rparr>"

text \<open>The input holds only blanks; a question is typed; a question is typed with a file selected.\<close>

definition blank_state :: ui_state where
  "blank_state = initial_state\<lparr>inputMessage := ''   ''\<rparr>"

definition typed_state :: ui_state where
  "typed_state = initial_state\<lparr>inputMessage := ''hi''\<rparr>"

definition asking_state :: ui_state where
  "asking_state =
     initial_state\<lparr>chats := [\<lparr>chat_id = 1, title = ''New Chat'', messages = [greeting],
                                uploadedFile = Some ''paper.pdf'', createdAt = 0\<rparr>],
                    inputMessage := '' why? ''\<rparr>"

definition text_file :: js_file where
  "text_file = \<lparr>file_name = ''notes.txt'', file_type = ''text/plain'', file_size = 12\<rparr>"

definition pdf_file :: js_file where
  "pdf_file = \<lparr>file_name = ''paper.pdf'', file_type = ''application/pdf'', file_size = 2048\<rparr>"

definition empty_json :: json_obj where
  "empty_json =
     \<lparr>j_detail = None, j_answer = None, j_sources = None, j_files = None, j_total_files = None\<rparr>"

text \<open>
  A backend that answers every request with \<^verbatim>\<open>200 {}\<close>, and one whose vectorize endpoint
  answers with an error status and a \<^verbatim>\<open>detail\<close>.
\<close>

definition env_ok :: env where
  "env_ok = \<lparr>backend = (\<lambda>log r. Resolved True (Inr empty_json)), genId = (\<lambda>k. 100 + real k),
             now = (\<lambda>k. 7)\<rparr>"

definition env_vectorize_down :: env where
  "env_vectorize_down =
     \<lparr>backend = (\<lambda>log r. case r of
          POST_VECTORIZE n \<Rightarrow> Resolved False (Inr (empty_json\<lparr>j_detail := Some ''Embedding failed''\<rparr>))
        | _ \<Rightarrow> Resolved True (Inr empty_json)),
      genId = (\<lambda>k. 100 + real k), now = (\<lambda>k. 7)\<rparr>"

text \<open>Four stored vectors, three of one document; two of them point the same way.\<close>

definition rec_a :: vector_record where
  "rec_a = \<lparr>vr_embedding = [1, 0], vr_document = ''a.pdf'', vr_chunk_index = 0, vr_text = ''alpha''\<rparr>"

definition rec_b :: vector_record where
  "rec_b = \<lparr>vr_embedding = [0, 1], vr_document = ''a.pdf'', vr_chunk_index = 1, vr_text = ''beta''\<rparr>"

definition rec_c :: vector_record where
  "rec_c = \<lparr>vr_embedding = [2, 0], vr_document = ''a.pdf'', vr_chunk_index = 2, vr_text = ''gamma''\<rparr>"

definition rec_d :: vector_record where
  "rec_d = \<lparr>vr_embedding = [- 1, 0], vr_document = ''b.pdf'', vr_chunk_index = 0, vr_text = ''delta''\<rparr>"

definition stored_vectors :: "vector_record list" where
  "stored_vectors = [rec_c, rec_b, rec_d, rec_a]"

text \<open>
  A three-chunk document whose third embedding fails, ingested over a registry that holds
  an earlier, vectorized upload of the same filename and another document.
\<close>

definition three_chunks :: "chunk list" where
  "three_chunks = [\<lparr>ch_index = 0, ch_offset = 0, ch_length = 3, ch_text = ''abc''\<rparr>,
                   \<lparr>ch_index = 1, ch_offset = 2, ch_length = 3, ch_text = ''cde''\<rparr>,
                   \<lparr>ch_index = 2, ch_offset = 4, ch_length = 3, ch_text = ''efg''\<rparr>]"

definition failing_embedder :: collaborators where
  "failing_embedder =
     \<lparr>extractor = (\<lambda>raw. Inr ''abcdefg''), chunker = (\<lambda>t. Inr three_chunks),
      embed = (\<lambda>n t. if n < 2 then Inr [1, real n] else Inl ''model unavailable''),
      upsert_ok = (\<lambda>n. True), delete_ok = (\<lambda>n. True), query_ok = True,
      llm = (\<lambda>q c. Inr c)\<rparr>"

text \<open>The same run with a vector database that accepts the first delete only.\<close>

definition lost_index :: collaborators where
  "lost_index = failing_embedder\<lparr>delete_ok := (\<lambda>n. n = 0)\<rparr>"


definition stale_core :: core_state where
  "stale_core =
     \<lparr>registry = [''doc.pdf'' \<mapsto> \<lparr>doc_status = Vectorized, vector_count = 1, byte_size = 3\<rparr>],
      index = [\<lparr>vr_embedding = [0, 1], vr_document = ''doc.pdf'', vr_chunk_index = 0, vr_text = ''old''\<rparr>,
               \<lparr>vr_embedding = [1, 1], vr_document = ''other.pdf'', vr_chunk_index = 0, vr_text = ''keep''\<rparr>]\<rparr>"

text \<open>
  An answerer with every collaborator working, whose context budget of eight characters
  holds the first retrieved chunk and not the second.
\<close>

definition working :: collaborators where
  "working =
     \<lparr>extractor = (\<lambda>raw. Inr ''abcdefg''), chunker = (\<lambda>t. Inr three_chunks),
      embed = (\<lambda>n t. Inr [1, 0]), upsert_ok = (\<lambda>n. True), delete_ok = (\<lambda>n. True),
      query_ok = True,
      llm = (\<lambda>q c. Inr (''From the context: '' @ c))\<rparr>"

definition tight_config :: answer_config where
  "tight_config = \<lparr>top_k = 2, context_budget = 8\<rparr>"

section \<open>Properties\<close>

subsection \<open>Strings\<close>

lemma starts_with_iff: "starts_with s p \<longleftrightarrow> (\<exists>b. s = p @ b)"
  by (induction s p rule: starts_with.induct) auto

lemma str_includes_iff: "str_includes s p \<longleftrightarrow> (\<exists>a b. s = a @ p @ b)"
proof (induction s)
  case Nil
  then show ?case by simp
next
  case (Cons c cs)
  have "(\<exists>a b. c # cs = a @ p @ b) \<longleftrightarrow> (\<exists>b. c # cs = p @ b) \<or> (\<exists>a' b. cs = a' @ p @ b)"
    by (auto simp: Cons_eq_append_conv)
  with Cons show ?case
    by (simp add: starts_with_iff del: starts_with.simps)
qed

subsection \<open>File validation in front of the upload\<close>

lemma validateFile_accepts:
  "validateFile f = Inr True \<longleftrightarrow>
     str_includes (file_type f) ''pdf'' \<and> file_size f \<le> 10 * 1024 * 1024"
  by (simp add: validateFile_def)

lemma validateFile_throws:
  "validateFile f \<noteq> Inr True \<Longrightarrow> \<exists>msg. validateFile f = Inl (Error msg)"
  by (simp add: validateFile_def split: if_splits)

lemma handleFileUpload_rejected:
  "validateFile f = Inl e \<Longrightarrow>
     handleFileUpload ev (Some f) s = (Inr (), s\<lparr>alerts := alerts s @ [message e]\<rparr>)"
  by (simp add: handleFileUpload_def alert_def js_modify_def Let_def)

text \<open>
  Claim C9. \<^verbatim>\<open>validateFile(file)\<close> returns \<^verbatim>\<open>true\<close> exactly when the MIME type contains
  \<^verbatim>\<open>pdf\<close> (as a contiguous substring) and the size is at most \<open>10 * 1024 * 1024\<close> bytes,
  and throws an \<^verbatim>\<open>Error\<close> in every other case. When it throws, \<^verbatim>\<open>handleFileUpload\<close>
  returns with the state it was called in, but for the text added to the log of alerts:
  the log of backend requests, the chats, \<^verbatim>\<open>isUploading\<close> and the file input are the same.
\<close>

theorem validateFile_guards_upload:
  "(validateFile f = Inr True \<longleftrightarrow>
      (\<exists>a b. file_type f = a @ ''pdf'' @ b) \<and> file_size f \<le> 10 * 1024 * 1024)
   \<and> (validateFile f \<noteq> Inr True \<longrightarrow> (\<exists>msg. validateFile f = Inl (Error msg)))
   \<and> (\<forall>e. validateFile f = Inl e \<longrightarrow>
          handleFileUpload ev (Some f) s = (Inr (), s\<lparr>alerts := alerts s @ [message e]\<rparr>)
          \<and> requests (snd (handleFileUpload ev (Some f) s)) = requests s
          \<and> chats (snd (handleFileUpload ev (Some f) s)) = chats s
          \<and> isUploading (snd (handleFileUpload ev (Some f) s)) = isUploading s)"
proof (intro conjI allI impI)
  show "validateFile f = Inr True \<longleftrightarrow>
      (\<exists>a b. file_type f = a @ ''pdf'' @ b) \<and> file_size f \<le> 10 * 1024 * 1024"
    unfolding validateFile_accepts str_includes_iff ..
next
  assume "validateFile f \<noteq> Inr True"
  then show "\<exists>msg. validateFile f = Inl (Error msg)"
    by (rule validateFile_throws)
next
  fix e
  assume thrown: "validateFile f = Inl e"
  show "handleFileUpload ev (Some f) s = (Inr (), s\<lparr>alerts := alerts s @ [message e]\<rparr>)"
    by (rule handleFileUpload_rejected [OF thrown])
  then show "requests (snd (handleFileUpload ev (Some f) s)) = requests s"
    and "chats (snd (handleFileUpload ev (Some f) s)) = chats s"
    and "isUploading (snd (handleFileUpload ev (Some f) s)) = isUploading s"
    by simp_all
qed

theorem validateFile_guards_upload_witness:
  "validateFile text_file = Inl (Error ''Please upload a PDF file only.'')
   \<and> handleFileUpload env_ok (Some text_file) initial_state
       = (Inr (), initial_state\<lparr>alerts := [''Please upload a PDF file only.'']\<rparr>)
   \<and> requests (snd (handleFileUpload env_ok (Some text_file) initial_state)) = []
   \<and> validateFile pdf_file = Inr True"
proof -
  have thrown: "validateFile text_file = Inl (Error ''Please upload a PDF file only.'')"
    by (simp add: validateFile_def text_file_def)
  have ok: "validateFile pdf_file = Inr True"
    by (simp add: validateFile_def pdf_file_def)
  from validateFile_guards_upload [of text_file env_ok initial_state] thrown ok
  show ?thesis
    by (simp add: initial_state_def)
qed

subsection \<open>What the API client sends and returns\<close>

lemma call_json_requests:
  "call_json ev r d s = (res, s') \<Longrightarrow> s' = s\<lparr>requests := requests s @ [r]\<rparr>"
  by (auto simp: call_json_def js_bind_def do_fetch_def js_throw_def js_return_def
      split: fetched.splits sum.splits if_splits)

lemma call_json_snd: "snd (call_json ev r d s) = s\<lparr>requests := requests s @ [r]\<rparr>"
  using call_json_requests [of ev r d s] by (cases "call_json ev r d s") simp

lemma getFiles_requests:
  "getFiles ev s = (res, s') \<Longrightarrow> s' = s\<lparr>requests := requests s @ [GET_FILES]\<rparr>"
  by (auto simp: getFiles_def js_bind_def do_fetch_def js_throw_def js_return_def
      split: fetched.splits sum.splits if_splits)

lemma call_json_result:
  "call_json ev r d s =
     ((case backend ev (requests s) r of
         Rejected e \<Rightarrow> Inl e
       | Resolved ok body \<Rightarrow>
           (case body of
              Inl e \<Rightarrow> Inl e
            | Inr j \<Rightarrow> if ok then Inr j else Inl (Error (or_else (j_detail j) d)))),
      s\<lparr>requests := requests s @ [r]\<rparr>)"
  by (simp add: call_json_def js_bind_def do_fetch_def js_throw_def js_return_def
      split: fetched.splits sum.splits)

lemma fetchAvailableFiles_requests:
  "\<exists>s'. fetchAvailableFiles ev search s = (Inr (), s') \<and> requests s' = requests s @ [GET_FILES]"
proof -
  obtain res s1 where g: "getFiles ev (s\<lparr>isSearching := True, backendError := None\<rparr>) = (res, s1)"
    by (cases "getFiles ev (s\<lparr>isSearching := True, backendError := None\<rparr>)")
  from getFiles_requests [OF g] have "requests s1 = requests s @ [GET_FILES]"
    by simp
  with g show ?thesis
    by (cases res; cases search)
       (simp_all add: fetchAvailableFiles_def try_finally_def try_catch_def js_then_def
          js_bind_def js_modify_def js_throw_def Let_def)
qed

lemma fetchAvailableFiles_fst: "fst (fetchAvailableFiles ev search s) = Inr ()"
  using fetchAvailableFiles_requests [of ev search s] by auto

lemma fetchAvailableFiles_snd_requests:
  "requests (snd (fetchAvailableFiles ev search s)) = requests s @ [GET_FILES]"
  using fetchAvailableFiles_requests [of ev search s] by auto

lemma fetchAvailableFiles_scrolls:
  "scrolls (snd (fetchAvailableFiles ev search s)) = scrolls s"
proof -
  obtain res s1 where g: "getFiles ev (s\<lparr>isSearching := True, backendError := None\<rparr>) = (res, s1)"
    by (cases "getFiles ev (s\<lparr>isSearching := True, backendError := None\<rparr>)")
  from getFiles_requests [OF g] g show ?thesis
    by (cases res; cases search)
       (simp_all add: fetchAvailableFiles_def try_finally_def try_catch_def js_then_def
          js_bind_def js_modify_def js_throw_def Let_def)
qed

text \<open>
  What \<^verbatim>\<open>uploadAndVectorize\<close> returns, read off the two answers of the backend: the
  failure object with the message thrown, or the success object with both bodies.
\<close>

lemma uploadAndVectorize_result:
  "uploadAndVectorize ev f s =
     (case call_json ev (POST_UPLOAD_PDF f) ''Upload failed'' s of
        (Inl e, s1) \<Rightarrow> (Inr (failure_object f (message e)), s1)
      | (Inr u, s1) \<Rightarrow>
          (case call_json ev (POST_VECTORIZE (file_name f)) ''Vectorization failed'' s1 of
             (Inl e, s2) \<Rightarrow> (Inr (failure_object f (message e)), s2)
           | (Inr v, s2) \<Rightarrow>
               (Inr [(''success'', JBool True), (''upload'', JObject u),
                     (''vectorization'', JObject v), (''filename'', JString (file_name f))], s2)))"
  by (simp add: uploadAndVectorize_def uploadFile_def vectorizeDocument_def try_catch_def
      js_bind_def js_return_def failure_object_def split: prod.splits sum.splits)

lemma uploadAndVectorize_total: "\<exists>obj s'. uploadAndVectorize ev f s = (Inr obj, s')"
  by (simp add: uploadAndVectorize_result split: prod.splits sum.splits)

lemma uploadAndVectorize_requests:
  assumes "uploadAndVectorize ev f s = (Inr obj, s')"
  shows "(\<not> js_truthy (map_of obj ''success'') \<and> requests s' = requests s @ [POST_UPLOAD_PDF f])
       \<or> requests s' = requests s @ [POST_UPLOAD_PDF f, POST_VECTORIZE (file_name f)]"
  using assms
  by (auto simp: uploadAndVectorize_result call_json_result failure_object_def js_truthy_def
      split: fetched.splits sum.splits if_splits)

lemma handleFileUpload_failure_alert:
  assumes valid: "validateFile f = Inr True"
    and res: "uploadAndVectorize ev f (s\<lparr>isUploading := True\<rparr>) = (Inr obj, s2)"
    and failed: "\<not> js_truthy (map_of obj ''success'')"
  shows "handleFileUpload ev (Some f) s =
           (Inr (), s2\<lparr>alerts := alerts s2 @
                        [''Upload failed: '' @ or_else (js_text (map_of obj ''error'')) ''Upload failed''],
                       isUploading := False, fileInputValue := []\<rparr>)"
  using assms
  by (simp add: handleFileUpload_def js_then_def js_bind_def js_modify_def try_finally_def
      try_catch_def js_throw_def alert_def)

lemma handleFileUpload_total_requests:
  "fst (handleFileUpload ev event s) = Inr ()
   \<and> (\<exists>new. requests (snd (handleFileUpload ev event s)) = requests s @ new
     \<and> (new = [] \<or> (\<exists>f. event = Some f \<and> validateFile f = Inr True \<and>
           (new = [POST_UPLOAD_PDF f] \<or> new = [POST_UPLOAD_PDF f, POST_VECTORIZE (file_name f)]
            \<or> new = [POST_UPLOAD_PDF f, POST_VECTORIZE (file_name f), GET_FILES]))))"
proof (cases event)
  case None
  then show ?thesis
    by (simp add: handleFileUpload_def js_return_def)
next
  case (Some f)
  show ?thesis
  proof (cases "validateFile f")
    case (Inl e)
    with Some show ?thesis
      by (simp add: handleFileUpload_def alert_def js_modify_def)
  next
    case (Inr b)
    then have vt: "validateFile f = Inr True"
      by (simp add: validateFile_def split: if_splits)
    let ?s1 = "s\<lparr>isUploading := True\<rparr>"
    obtain r s2 where u: "uploadAndVectorize ev f ?s1 = (Inr r, s2)"
      using uploadAndVectorize_total by blast
    note rq = uploadAndVectorize_requests [OF u]
    show ?thesis
    proof (cases "js_truthy (map_of r ''success'')")
      case False
      with Some Inr u rq vt show ?thesis
        by (auto simp: handleFileUpload_def js_then_def js_bind_def js_modify_def try_finally_def
            try_catch_def js_throw_def alert_def)
    next
      case True
      with rq have rq2: "requests s2 = requests s @ [POST_UPLOAD_PDF f, POST_VECTORIZE (file_name f)]"
        by simp
      show ?thesis
      proof (cases "currentChat s")
        case None
        with Some Inr u rq2 True vt show ?thesis
          by (auto simp: handleFileUpload_def js_then_def js_bind_def js_modify_def try_finally_def
              try_catch_def js_throw_def alert_def updateCurrentChat_def Let_def)
      next
        case (Some c0)
        with rq2 \<open>event = Some f\<close> Inr u True vt show ?thesis
          by (simp add: handleFileUpload_def js_then_def js_bind_def js_modify_def try_finally_def
              try_catch_def js_throw_def alert_def updateCurrentChat_def Let_def scrollToBottom_def
              split_beta fetchAvailableFiles_fst fetchAvailableFiles_snd_requests)
      qed
    qed
  qed
qed

lemma handleSendMessage_requests:
  "\<exists>new. requests (snd (handleSendMessage ev s)) = requests s @ new
     \<and> (new = [] \<or> new = [GET_FILES, GET_FILES]
        \<or> (\<exists>c0 fname. currentChat s = Some c0 \<and> uploadedFile c0 = Some fname
              \<and> new = [POST_ASK (trim (inputMessage s)) (Some fname)]))"
proof (cases "trim (inputMessage s) = [] \<or> isLoading s")
  case True
  then show ?thesis
    by (simp add: handleSendMessage_def js_return_def Let_def)
next
  case False
  show ?thesis
  proof (cases "currentChat s")
    case None
    with False show ?thesis
      by (simp add: handleSendMessage_def js_throw_def Let_def)
  next
    case (Some c0)
    show ?thesis
    proof (cases "uploadedFile c0")
      case None
      with False Some show ?thesis
        by (simp add: handleSendMessage_def js_then_def js_bind_def js_modify_def try_finally_def
              try_catch_def js_throw_def updateCurrentChat_def Let_def scrollToBottom_def
              split_beta fetchAvailableFiles_fst fetchAvailableFiles_snd_requests)
    next
      case (Some fname)
      with False \<open>currentChat s = Some c0\<close> show ?thesis
        by (auto simp: handleSendMessage_def js_then_def js_bind_def js_modify_def try_finally_def
              try_catch_def js_throw_def updateCurrentChat_def Let_def scrollToBottom_def
              split_beta askQuestion_def call_json_snd split: sum.splits)
    qed
  qed
qed

subsection \<open>The guard of \<^verbatim>\<open>handleSendMessage\<close>\<close>

lemma handleSendMessage_enabled:
  assumes "\<not> send_disabled s" and "currentChat s = Some c0"
  shows "requests (snd (handleSendMessage ev s)) \<noteq> requests s"
    and "scrolls (snd (handleSendMessage ev s)) = Suc (scrolls s)"
proof -
  from assms(1) have active: "\<not> (trim (inputMessage s) = [] \<or> isLoading s)"
    by (simp add: send_disabled_def)
  have "requests (snd (handleSendMessage ev s)) \<noteq> requests s
      \<and> scrolls (snd (handleSendMessage ev s)) = Suc (scrolls s)"
  proof (cases "uploadedFile c0")
    case None
    with active assms(2) show ?thesis
      by (simp add: handleSendMessage_def js_then_def js_bind_def js_modify_def try_finally_def
            try_catch_def js_throw_def updateCurrentChat_def Let_def scrollToBottom_def
            split_beta fetchAvailableFiles_fst fetchAvailableFiles_snd_requests
            fetchAvailableFiles_scrolls)
  next
    case (Some fname)
    with active assms(2) show ?thesis
      by (auto simp: handleSendMessage_def js_then_def js_bind_def js_modify_def try_finally_def
            try_catch_def js_throw_def updateCurrentChat_def Let_def scrollToBottom_def
            split_beta askQuestion_def call_json_snd split: sum.splits)
  qed
  then show "requests (snd (handleSendMessage ev s)) \<noteq> requests s"
    and "scrolls (snd (handleSendMessage ev s)) = Suc (scrolls s)"
    by simp_all
qed

text \<open>
  Claim C10. When a question is in flight (\<^verbatim>\<open>isLoading\<close>) or the input is empty after
  trimming, \<^verbatim>\<open>handleSendMessage\<close> returns at once with the state it was called in: no
  message is appended, no backend request is logged, nothing changes. The send button is
  disabled in exactly these states. In every other state with a current chat the handler
  does act: it issues a backend request and scrolls.
\<close>

theorem handleSendMessage_guard:
  "(trim (inputMessage s) = [] \<or> isLoading s \<longrightarrow> handleSendMessage ev s = (Inr (), s))
   \<and> (send_disabled s \<longleftrightarrow> trim (inputMessage s) = [] \<or> isLoading s)
   \<and> (\<not> send_disabled s \<and> currentChat s = Some c0 \<longrightarrow>
        requests (snd (handleSendMessage ev s)) \<noteq> requests s
        \<and> scrolls (snd (handleSendMessage ev s)) = Suc (scrolls s))"
proof (intro conjI impI)
  assume "trim (inputMessage s) = [] \<or> isLoading s"
  then show "handleSendMessage ev s = (Inr (), s)"
    by (simp add: handleSendMessage_def js_return_def Let_def)
next
  show "send_disabled s \<longleftrightarrow> trim (inputMessage s) = [] \<or> isLoading s"
    by (simp add: send_disabled_def)
next
  assume "\<not> send_disabled s \<and> currentChat s = Some c0"
  then show "requests (snd (handleSendMessage ev s)) \<noteq> requests s"
    and "scrolls (snd (handleSendMessage ev s)) = Suc (scrolls s)"
    by (simp_all add: handleSendMessage_enabled)
qed

theorem handleSendMessage_guard_witness:
  "trim (inputMessage blank_state) = []
   \<and> handleSendMessage env_ok blank_state = (Inr (), blank_state)
   \<and> send_disabled blank_state
   \<and> isLoading (typed_state\<lparr>isLoading := True\<rparr>)
   \<and> handleSendMessage env_ok (typed_state\<lparr>isLoading := True\<rparr>)
       = (Inr (), typed_state\<lparr>isLoading := True\<rparr>)
   \<and> \<not> send_disabled typed_state"
proof -
  have blank: "trim (inputMessage blank_state) = []"
    by (simp add: blank_state_def initial_state_def trim_def js_whitespace_def)
  have typed: "trim (inputMessage typed_state) = ''hi''"
    by (simp add: typed_state_def initial_state_def trim_def js_whitespace_def)
  have idle: "\<not> isLoading typed_state"
    by (simp add: typed_state_def initial_state_def)
  from handleSendMessage_guard [of blank_state env_ok]
    handleSendMessage_guard [of "typed_state\<lparr>isLoading := True\<rparr>" env_ok]
    handleSendMessage_guard [of typed_state env_ok] blank typed idle
  show ?thesis
    by simp
qed

subsection \<open>The ingest call of the client\<close>

text \<open>
  Claim C4, as the code has it. What \<^verbatim>\<open>uploadAndVectorize\<close> returns is decided by the
  backend's answers to its two requests. When the upload request is rejected, or its body
  cannot be parsed, or it has an error status, the result is the failure object
  \<^verbatim>\<open>{success: false, error, filename}\<close> whose \<^verbatim>\<open>error\<close> is the message thrown (for an
  error status: the \<^verbatim>\<open>detail\<close> of the body, or \<^verbatim>\<open>Upload failed\<close>), and the vectorization
  is not requested. When the upload succeeded, the same holds of the vectorization
  request (with \<^verbatim>\<open>Vectorization failed\<close>), and when both succeeded the result is the
  success object \<^verbatim>\<open>{success: true, upload, vectorization, filename}\<close> carrying the two
  bodies. The call always returns an object and never throws. \<^verbatim>\<open>handleFileUpload\<close> never
  throws either, and on a result without a truthy \<^verbatim>\<open>success\<close> it shows the alert
  \<^verbatim>\<open>Upload failed: \<close> followed by the error and resets the uploading flag and the file
  input.
\<close>

theorem ingest_errors_are_returned:
  "(let up = backend ev (requests s) (POST_UPLOAD_PDF f);
        vz = backend ev (requests s @ [POST_UPLOAD_PDF f]) (POST_VECTORIZE (file_name f));
        s1 = s\<lparr>requests := requests s @ [POST_UPLOAD_PDF f]\<rparr>;
        s2 = s\<lparr>requests := requests s @ [POST_UPLOAD_PDF f, POST_VECTORIZE (file_name f)]\<rparr>
    in (\<forall>e. up = Rejected e \<longrightarrow>
          uploadAndVectorize ev f s = (Inr (failure_object f (message e)), s1))
     \<and> (\<forall>ok e. up = Resolved ok (Inl e) \<longrightarrow>
          uploadAndVectorize ev f s = (Inr (failure_object f (message e)), s1))
     \<and> (\<forall>err. up = Resolved False (Inr err) \<longrightarrow>
          uploadAndVectorize ev f s
            = (Inr (failure_object f (or_else (j_detail err) ''Upload failed'')), s1))
     \<and> (\<forall>u. up = Resolved True (Inr u) \<longrightarrow>
          (\<forall>e. vz = Rejected e \<longrightarrow>
             uploadAndVectorize ev f s = (Inr (failure_object f (message e)), s2))
        \<and> (\<forall>ok e. vz = Resolved ok (Inl e) \<longrightarrow>
             uploadAndVectorize ev f s = (Inr (failure_object f (message e)), s2))
        \<and> (\<forall>err. vz = Resolved False (Inr err) \<longrightarrow>
             uploadAndVectorize ev f s
               = (Inr (failure_object f (or_else (j_detail err) ''Vectorization failed'')), s2))
        \<and> (\<forall>v. vz = Resolved True (Inr v) \<longrightarrow>
             uploadAndVectorize ev f s = (Inr (success_object f u v), s2))))
   \<and> (\<exists>obj s'. uploadAndVectorize ev f s = (Inr obj, s'))
   \<and> fst (handleFileUpload ev event s) = Inr ()
   \<and> (\<forall>obj s2. validateFile f = Inr True
          \<and> uploadAndVectorize ev f (s\<lparr>isUploading := True\<rparr>) = (Inr obj, s2)
          \<and> \<not> js_truthy (map_of obj ''success'') \<longrightarrow>
          handleFileUpload ev (Some f) s =
            (Inr (), s2\<lparr>alerts := alerts s2 @
                         [''Upload failed: '' @ or_else (js_text (map_of obj ''error'')) ''Upload failed''],
                        isUploading := False, fileInputValue := []\<rparr>))"
proof (intro conjI)
  show "let up = backend ev (requests s) (POST_UPLOAD_PDF f);
        vz = backend ev (requests s @ [POST_UPLOAD_PDF f]) (POST_VECTORIZE (file_name f));
        s1 = s\<lparr>requests := requests s @ [POST_UPLOAD_PDF f]\<rparr>;
        s2 = s\<lparr>requests := requests s @ [POST_UPLOAD_PDF f, POST_VECTORIZE (file_name f)]\<rparr>
    in (\<forall>e. up = Rejected e \<longrightarrow>
          uploadAndVectorize ev f s = (Inr (failure_object f (message e)), s1))
     \<and> (\<forall>ok e. up = Resolved ok (Inl e) \<longrightarrow>
          uploadAndVectorize ev f s = (Inr (failure_object f (message e)), s1))
     \<and> (\<forall>err. up = Resolved False (Inr err) \<longrightarrow>
          uploadAndVectorize ev f s
            = (Inr (failure_object f (or_else (j_detail err) ''Upload failed'')), s1))
     \<and> (\<forall>u. up = Resolved True (Inr u) \<longrightarrow>
          (\<forall>e. vz = Rejected e \<longrightarrow>
             uploadAndVectorize ev f s = (Inr (failure_object f (message e)), s2))
        \<and> (\<forall>ok e. vz = Resolved ok (Inl e) \<longrightarrow>
             uploadAndVectorize ev f s = (Inr (failure_object f (message e)), s2))
        \<and> (\<forall>err. vz = Resolved False (Inr err) \<longrightarrow>
             uploadAndVectorize ev f s
               = (Inr (failure_object f (or_else (j_detail err) ''Vectorization failed'')), s2))
        \<and> (\<forall>v. vz = Resolved True (Inr v) \<longrightarrow>
             uploadAndVectorize ev f s = (Inr (success_object f u v), s2)))"
    by (simp add: Let_def uploadAndVectorize_result call_json_result success_object_def)
next
  show "\<exists>obj s'. uploadAndVectorize ev f s = (Inr obj, s')"
    by (rule uploadAndVectorize_total)
next
  show "fst (handleFileUpload ev event s) = Inr ()"
    using handleFileUpload_total_requests [of ev event s] by simp
next
  show "\<forall>obj s2. validateFile f = Inr True
          \<and> uploadAndVectorize ev f (s\<lparr>isUploading := True\<rparr>) = (Inr obj, s2)
          \<and> \<not> js_truthy (map_of obj ''success'') \<longrightarrow>
          handleFileUpload ev (Some f) s =
            (Inr (), s2\<lparr>alerts := alerts s2 @
                         [''Upload failed: '' @ or_else (js_text (map_of obj ''error'')) ''Upload failed''],
                        isUploading := False, fileInputValue := []\<rparr>)"
    by (simp add: handleFileUpload_failure_alert)
qed

theorem ingest_errors_are_returned_witness:
  "validateFile pdf_file = Inr True
   \<and> backend env_vectorize_down [] (POST_UPLOAD_PDF pdf_file) = Resolved True (Inr empty_json)
   \<and> backend env_vectorize_down [POST_UPLOAD_PDF pdf_file] (POST_VECTORIZE ''paper.pdf'')
       = Resolved False (Inr (empty_json\<lparr>j_detail := Some ''Embedding failed''\<rparr>))
   \<and> uploadAndVectorize env_vectorize_down pdf_file initial_state
       = (Inr [(''success'', JBool False), (''error'', JString ''Embedding failed''),
               (''filename'', JString ''paper.pdf'')],
          initial_state\<lparr>requests := [POST_UPLOAD_PDF pdf_file, POST_VECTORIZE ''paper.pdf'']\<rparr>)
   \<and> handleFileUpload env_vectorize_down (Some pdf_file) initial_state
       = (Inr (), initial_state\<lparr>requests := [POST_UPLOAD_PDF pdf_file, POST_VECTORIZE ''paper.pdf''],
            alerts := [''Upload failed: Embedding failed'']\<rparr>)"
proof -
  have valid: "validateFile pdf_file = Inr True"
    by (simp add: validateFile_def pdf_file_def)
  have up: "backend env_vectorize_down (requests initial_state) (POST_UPLOAD_PDF pdf_file)
              = Resolved True (Inr empty_json)"
    and vz: "backend env_vectorize_down (requests initial_state @ [POST_UPLOAD_PDF pdf_file])
               (POST_VECTORIZE (file_name pdf_file))
              = Resolved False (Inr (empty_json\<lparr>j_detail := Some ''Embedding failed''\<rparr>))"
    and up': "backend env_vectorize_down (requests (initial_state\<lparr>isUploading := True\<rparr>))
               (POST_UPLOAD_PDF pdf_file) = Resolved True (Inr empty_json)"
    and vz': "backend env_vectorize_down
               (requests (initial_state\<lparr>isUploading := True\<rparr>) @ [POST_UPLOAD_PDF pdf_file])
               (POST_VECTORIZE (file_name pdf_file))
              = Resolved False (Inr (empty_json\<lparr>j_detail := Some ''Embedding failed''\<rparr>))"
    by (simp_all add: env_vectorize_down_def pdf_file_def)
  have detail: "or_else (j_detail (empty_json\<lparr>j_detail := Some ''Embedding failed''\<rparr>))
                  ''Vectorization failed'' = ''Embedding failed''"
    by (simp add: or_else_def)
  from ingest_errors_are_returned [of env_vectorize_down initial_state pdf_file None] up vz detail
  have returned: "uploadAndVectorize env_vectorize_down pdf_file initial_state
       = (Inr (failure_object pdf_file ''Embedding failed''),
          initial_state\<lparr>requests := requests initial_state @
             [POST_UPLOAD_PDF pdf_file, POST_VECTORIZE (file_name pdf_file)]\<rparr>)"
    by (simp add: Let_def)
  from ingest_errors_are_returned
         [of env_vectorize_down "initial_state\<lparr>isUploading := True\<rparr>" pdf_file None] up' vz' detail
  have returned': "uploadAndVectorize env_vectorize_down pdf_file (initial_state\<lparr>isUploading := True\<rparr>)
       = (Inr (failure_object pdf_file ''Embedding failed''),
          initial_state\<lparr>isUploading := True,
             requests := requests initial_state @
               [POST_UPLOAD_PDF pdf_file, POST_VECTORIZE (file_name pdf_file)]\<rparr>)"
    by (simp add: Let_def)
  have "handleFileUpload env_vectorize_down (Some pdf_file) initial_state
       = (Inr (), initial_state\<lparr>isUploading := False, fileInputValue := [],
            requests := requests initial_state @
               [POST_UPLOAD_PDF pdf_file, POST_VECTORIZE (file_name pdf_file)],
            alerts := alerts initial_state @
              [''Upload failed: '' @ or_else (Some ''Embedding failed'') ''Upload failed'']\<rparr>)"
    using ingest_errors_are_returned [of env_vectorize_down initial_state pdf_file None] valid returned'
    by (simp add: failure_object_def js_truthy_def js_text_def)
  with valid up vz returned show ?thesis
    by (simp add: or_else_def initial_state_def failure_object_def pdf_file_def)
qed

text \<open>
  The claim as the specification words it fails: the object returned has neither a
  \<^verbatim>\<open>status\<close> nor a \<^verbatim>\<open>vector_count\<close> field, on success or on failure; the status and the
  count of the backend, if it sends any, are inside the \<^verbatim>\<open>vectorization\<close> body that the
  success object carries.
\<close>

theorem ingest_errors_are_returned_counterexample:
  "uploadAndVectorize env_ok pdf_file initial_state
     = (Inr [(''success'', JBool True), (''upload'', JObject empty_json),
             (''vectorization'', JObject empty_json), (''filename'', JString ''paper.pdf'')],
        initial_state\<lparr>requests := [POST_UPLOAD_PDF pdf_file, POST_VECTORIZE ''paper.pdf'']\<rparr>)
   \<and> \<not> has_spec_shape [(''success'', JBool True), (''upload'', JObject empty_json),
             (''vectorization'', JObject empty_json), (''filename'', JString ''paper.pdf'')]
   \<and> \<not> has_spec_shape [(''success'', JBool False), (''error'', JString ''Embedding failed''),
               (''filename'', JString ''paper.pdf'')]"
  by (simp add: uploadAndVectorize_result call_json_result env_ok_def initial_state_def
      pdf_file_def has_spec_shape_def)

subsection \<open>The backend calls of the UI\<close>

lemma handleFileSearch_snd:
  "snd (handleFileSearch v s) = s\<lparr>searchTerm := v, searchTimer := Some v\<rparr>"
  by (simp add: handleFileSearch_def js_then_def js_bind_def js_modify_def)

lemma searchTimerFires_requests:
  "requests (snd (searchTimerFires ev s))
     = requests s @ (case searchTimer s of None \<Rightarrow> [] | Some v \<Rightarrow> [GET_FILES])"
  by (cases "searchTimer s")
     (simp_all add: searchTimerFires_def js_return_def js_then_def js_bind_def js_modify_def
        fetchAvailableFiles_snd_requests)

lemma fetchAvailableFiles_searchTimer:
  "searchTimer (snd (fetchAvailableFiles ev search s)) = searchTimer s"
proof -
  obtain res s1 where g: "getFiles ev (s\<lparr>isSearching := True, backendError := None\<rparr>) = (res, s1)"
    by (cases "getFiles ev (s\<lparr>isSearching := True, backendError := None\<rparr>)")
  from getFiles_requests [OF g] g show ?thesis
    by (cases res; cases search)
       (simp_all add: fetchAvailableFiles_def try_finally_def try_catch_def js_then_def
          js_bind_def js_modify_def js_throw_def Let_def)
qed

lemma searchTimerFires_disarms: "searchTimer (snd (searchTimerFires ev s)) = None"
  by (cases "searchTimer s")
     (simp_all add: searchTimerFires_def js_return_def js_then_def js_bind_def js_modify_def
        fetchAvailableFiles_searchTimer)

lemma clearSearch_requests:
  "requests (snd (clearSearch ev s)) = requests s @ [GET_FILES]"
  by (simp add: clearSearch_def js_then_def js_bind_def js_modify_def
      fetchAvailableFiles_snd_requests)

lemma handleFileSelect_requests:
  "requests (snd (handleFileSelect ev selected s)) = requests s"
  by (cases "currentChat s")
     (simp_all add: handleFileSelect_def Let_def js_return_def js_then_def js_bind_def
        js_modify_def js_throw_def try_catch_def updateCurrentChat_def scrollToBottom_def)

text \<open>
  Claim C3, as the code has it. The UI reaches the backend through three operations of the
  API client, not two: \<^verbatim>\<open>uploadAndVectorize\<close> (the ingest call: a POST to the upload
  endpoint and, when that succeeded, a POST to the vectorize endpoint), \<^verbatim>\<open>askQuestion\<close>
  (the answer call) and \<^verbatim>\<open>getFiles\<close> (a GET of the file list). Every request a handler
  issues is one of these. \<^verbatim>\<open>fetchAvailableFiles\<close> (run on mount) and \<^verbatim>\<open>clearSearch\<close>
  issue one GET of the files. \<^verbatim>\<open>handleFileSearch\<close> issues nothing itself: it stores its
  argument as the search term and arms the timer with it in place of a pending one. A
  timer running out issues one GET of the files when it was armed and nothing otherwise,
  and leaves no timer armed; so two calls of \<^verbatim>\<open>handleFileSearch\<close> before the timer runs
  out lead to one GET, and a timer that has run out does not fire again.
  \<^verbatim>\<open>handleFileSelect\<close> issues
  nothing; \<^verbatim>\<open>handleFileUpload\<close> issues nothing, or the upload, or the upload and the
  vectorization, or these two and a GET of the files; \<^verbatim>\<open>handleSendMessage\<close> issues
  nothing, or two GETs of the files (no file selected), or one POST of the question with
  the selected file's name.
\<close>

theorem ui_backend_calls:
  "requests (snd (fetchAvailableFiles ev search s)) = requests s @ [GET_FILES]
   \<and> snd (handleFileSearch v s) = s\<lparr>searchTerm := v, searchTimer := Some v\<rparr>
   \<and> requests (snd (searchTimerFires ev s))
       = requests s @ (case searchTimer s of None \<Rightarrow> [] | Some armed \<Rightarrow> [GET_FILES])
   \<and> searchTimer (snd (searchTimerFires ev s)) = None
   \<and> requests (snd (searchTimerFires ev (snd (handleFileSearch w (snd (handleFileSearch v s))))))
       = requests s @ [GET_FILES]
   \<and> requests (snd (searchTimerFires ev (snd (searchTimerFires ev (snd (handleFileSearch v s))))))
       = requests s @ [GET_FILES]
   \<and> requests (snd (clearSearch ev s)) = requests s @ [GET_FILES]
   \<and> requests (snd (handleFileSelect ev selected s)) = requests s
   \<and> (\<exists>new. requests (snd (handleFileUpload ev event s)) = requests s @ new
        \<and> (new = [] \<or> (\<exists>f. event = Some f \<and> validateFile f = Inr True \<and>
              (new = [POST_UPLOAD_PDF f] \<or> new = [POST_UPLOAD_PDF f, POST_VECTORIZE (file_name f)]
               \<or> new = [POST_UPLOAD_PDF f, POST_VECTORIZE (file_name f), GET_FILES]))))
   \<and> (\<exists>new. requests (snd (handleSendMessage ev s)) = requests s @ new
        \<and> (new = [] \<or> new = [GET_FILES, GET_FILES]
           \<or> (\<exists>c0 fname. currentChat s = Some c0 \<and> uploadedFile c0 = Some fname
                 \<and> new = [POST_ASK (trim (inputMessage s)) (Some fname)])))"
proof (intro conjI)
  show "requests (snd (fetchAvailableFiles ev search s)) = requests s @ [GET_FILES]"
    by (rule fetchAvailableFiles_snd_requests)
next
  show "snd (handleFileSearch v s) = s\<lparr>searchTerm := v, searchTimer := Some v\<rparr>"
    by (rule handleFileSearch_snd)
next
  show "requests (snd (searchTimerFires ev s))
       = requests s @ (case searchTimer s of None \<Rightarrow> [] | Some armed \<Rightarrow> [GET_FILES])"
    by (rule searchTimerFires_requests)
next
  show "searchTimer (snd (searchTimerFires ev s)) = None"
    by (rule searchTimerFires_disarms)
next
  show "requests (snd (searchTimerFires ev (snd (handleFileSearch w (snd (handleFileSearch v s))))))
       = requests s @ [GET_FILES]"
    by (simp add: searchTimerFires_requests handleFileSearch_snd)
next
  show "requests (snd (searchTimerFires ev (snd (searchTimerFires ev (snd (handleFileSearch v s))))))
       = requests s @ [GET_FILES]"
    by (simp add: searchTimerFires_requests searchTimerFires_disarms handleFileSearch_snd)
next
  show "requests (snd (clearSearch ev s)) = requests s @ [GET_FILES]"
    by (rule clearSearch_requests)
next
  show "requests (snd (handleFileSelect ev selected s)) = requests s"
    by (rule handleFileSelect_requests)
next
  show "\<exists>new. requests (snd (handleFileUpload ev event s)) = requests s @ new
        \<and> (new = [] \<or> (\<exists>f. event = Some f \<and> validateFile f = Inr True \<and>
              (new = [POST_UPLOAD_PDF f] \<or> new = [POST_UPLOAD_PDF f, POST_VECTORIZE (file_name f)]
               \<or> new = [POST_UPLOAD_PDF f, POST_VECTORIZE (file_name f), GET_FILES])))"
    using handleFileUpload_total_requests [of ev event s] by (rule conjunct2)
next
  show "\<exists>new. requests (snd (handleSendMessage ev s)) = requests s @ new
        \<and> (new = [] \<or> new = [GET_FILES, GET_FILES]
           \<or> (\<exists>c0 fname. currentChat s = Some c0 \<and> uploadedFile c0 = Some fname
                 \<and> new = [POST_ASK (trim (inputMessage s)) (Some fname)]))"
    by (rule handleSendMessage_requests)
qed

theorem ui_backend_calls_witness:
  "requests (snd (fetchAvailableFiles env_ok (SearchText []) initial_state)) = [GET_FILES]
   \<and> requests (snd (handleFileSearch (ChangeEvent ''p'') initial_state)) = []
   \<and> requests (snd (searchTimerFires env_ok
         (snd (handleFileSearch (ChangeEvent ''pa'')
            (snd (handleFileSearch (ChangeEvent ''p'') initial_state)))))) = [GET_FILES]
   \<and> requests (snd (handleFileUpload env_ok (Some pdf_file) initial_state))
       = [POST_UPLOAD_PDF pdf_file, POST_VECTORIZE ''paper.pdf'', GET_FILES]
   \<and> requests (snd (handleSendMessage env_ok asking_state)) = [POST_ASK ''why?'' (Some ''paper.pdf'')]
   \<and> requests (snd (handleSendMessage env_ok typed_state)) = [GET_FILES, GET_FILES]"
proof -
  have upload: "requests (snd (handleFileUpload env_ok (Some pdf_file) initial_state))
       = [POST_UPLOAD_PDF pdf_file, POST_VECTORIZE ''paper.pdf'', GET_FILES]"
    by (simp add: handleFileUpload_def Let_def validateFile_def uploadAndVectorize_def
        uploadFile_def vectorizeDocument_def call_json_def getFiles_def fetchAvailableFiles_def
        currentChat_def updateCurrentChat_def new_message_def or_else_def js_truthy_def
        js_text_def trim_def js_whitespace_def
        js_return_def js_throw_def js_bind_def js_then_def js_modify_def try_catch_def
        try_finally_def do_fetch_def alert_def scrollToBottom_def
        env_ok_def pdf_file_def initial_state_def empty_json_def)
  have ask: "requests (snd (handleSendMessage env_ok asking_state)) = [POST_ASK ''why?'' (Some ''paper.pdf'')]"
    by (simp add: handleSendMessage_def Let_def askQuestion_def call_json_def truthy_def
        currentChat_def updateCurrentChat_def new_message_def clear_newest_def
        generateChatTitle_def trim_def js_whitespace_def
        js_return_def js_throw_def js_bind_def js_then_def js_modify_def try_catch_def
        try_finally_def do_fetch_def scrollToBottom_def
        env_ok_def asking_state_def initial_state_def empty_json_def greeting_def)
  have prompt: "requests (snd (handleSendMessage env_ok typed_state)) = [GET_FILES, GET_FILES]"
    by (simp add: handleSendMessage_def Let_def getFiles_def fetchAvailableFiles_def
        currentChat_def updateCurrentChat_def new_message_def generateChatTitle_def trim_def
        js_whitespace_def
        js_return_def js_throw_def js_bind_def js_then_def js_modify_def try_catch_def
        try_finally_def do_fetch_def scrollToBottom_def
        env_ok_def typed_state_def initial_state_def empty_json_def greeting_def)
  from ui_backend_calls [of env_ok "SearchText []" initial_state "ChangeEvent ''p''"
         "ChangeEvent ''pa''" None None]
  have "requests (snd (fetchAvailableFiles env_ok (SearchText []) initial_state))
          = requests initial_state @ [GET_FILES]"
    and "requests (snd (handleFileSearch (ChangeEvent ''p'') initial_state)) = requests initial_state"
    and "requests (snd (searchTimerFires env_ok
           (snd (handleFileSearch (ChangeEvent ''pa'')
              (snd (handleFileSearch (ChangeEvent ''p'') initial_state))))))
          = requests initial_state @ [GET_FILES]"
    by (simp_all add: handleFileSearch_snd)
  with upload ask prompt show ?thesis
    by (simp add: initial_state_def)
qed

text \<open>
  The claim as the specification words it fails: loading the file list is a backend call
  of the UI that is neither the ingest nor the answer call.
\<close>

theorem ui_backend_calls_counterexample:
  "requests (snd (fetchAvailableFiles env_ok (SearchText []) initial_state)) = [GET_FILES]
   \<and> \<not> list_all is_ingest_or_answer
         (requests (snd (fetchAvailableFiles env_ok (SearchText []) initial_state)))"
  by (simp add: fetchAvailableFiles_def getFiles_def call_json_def js_return_def js_throw_def
      js_bind_def js_then_def js_modify_def try_catch_def try_finally_def do_fetch_def trim_def
      env_ok_def initial_state_def empty_json_def)

subsection \<open>Retrieval\<close>

lemma query_length: "length (query q k flt idx) = min k (length (filter (passes_filter flt) idx))"
  by (simp add: query_def)

lemma query_subset: "set (query q k flt idx) \<subseteq> {r \<in> set idx. passes_filter flt r}"
  by (auto simp: query_def dest: in_set_takeD)

lemma query_ranked: "sorted_wrt (\<lambda>a b. rank_key q a \<le> rank_key q b) (query q k flt idx)"
proof -
  have "sorted (map (rank_key q) (sort_key (rank_key q) (filter (passes_filter flt) idx)))"
    by (rule sorted_sort_key)
  then have "sorted_wrt (\<lambda>a b. rank_key q a \<le> rank_key q b)
               (sort_key (rank_key q) (filter (passes_filter flt) idx))"
    by (simp add: sorted_map)
  then show ?thesis
    unfolding query_def by (rule sorted_wrt_take)
qed

lemma rank_key_similarity:
  "rank_key q a \<le> rank_key q b \<Longrightarrow> cosine q (vr_embedding b) \<le> cosine q (vr_embedding a)"
  by (auto simp: rank_key_def less_eq_prod_def)

lemma rank_key_tie:
  "rank_key q a \<le> rank_key q b \<Longrightarrow> cosine q (vr_embedding a) = cosine q (vr_embedding b) \<Longrightarrow>
     vr_chunk_index a \<le> vr_chunk_index b"
  by (auto simp: rank_key_def less_eq_prod_def)

text \<open>
  Claim C2. For every query vector, every \<open>top_k\<close> and every list of stored records,
  \<^verbatim>\<open>VectorIndex.query\<close> returns at most \<open>top_k\<close> of the stored records; under a filename
  filter every returned record is of that document; the returned records are in descending
  order of cosine similarity to the query vector, and of two returned records of equal
  similarity the one returned first has the smaller (or the same) chunk index.
\<close>

theorem query_top_k_ranked:
  "length (query q k flt idx) \<le> k
   \<and> set (query q k flt idx) \<subseteq> set idx
   \<and> (\<forall>f. flt = Some f \<longrightarrow> (\<forall>r \<in> set (query q k flt idx). vr_document r = f))
   \<and> sorted_wrt (\<lambda>a b. cosine q (vr_embedding b) \<le> cosine q (vr_embedding a)) (query q k flt idx)
   \<and> sorted_wrt (\<lambda>a b. cosine q (vr_embedding a) = cosine q (vr_embedding b) \<longrightarrow>
                         vr_chunk_index a \<le> vr_chunk_index b) (query q k flt idx)"
proof (intro conjI allI impI)
  show "length (query q k flt idx) \<le> k"
    by (simp add: query_length)
next
  show "set (query q k flt idx) \<subseteq> set idx"
    using query_subset [of q k flt idx] by auto
next
  fix f
  assume "flt = Some f"
  with query_subset [of q k flt idx] show "\<forall>r \<in> set (query q k flt idx). vr_document r = f"
    by (auto simp: passes_filter_def)
next
  show "sorted_wrt (\<lambda>a b. cosine q (vr_embedding b) \<le> cosine q (vr_embedding a)) (query q k flt idx)"
    by (rule sorted_wrt_mono_rel [OF _ query_ranked]) (rule rank_key_similarity)
next
  show "sorted_wrt (\<lambda>a b. cosine q (vr_embedding a) = cosine q (vr_embedding b) \<longrightarrow>
                         vr_chunk_index a \<le> vr_chunk_index b) (query q k flt idx)"
    by (rule sorted_wrt_mono_rel [OF _ query_ranked]) (auto dest: rank_key_tie)
qed

theorem query_top_k_ranked_witness:
  "query [1, 0] 2 (Some ''a.pdf'') stored_vectors = [rec_a, rec_c]
   \<and> length (query [1, 0] 2 (Some ''a.pdf'') stored_vectors) \<le> 2
   \<and> cosine [1, 0] (vr_embedding rec_a) = cosine [1, 0] (vr_embedding rec_c)
   \<and> vr_chunk_index rec_a \<le> vr_chunk_index rec_c
   \<and> query [1, 0] 5 None stored_vectors = [rec_a, rec_c, rec_b, rec_d]
   \<and> cosine [1, 0] (vr_embedding rec_b) = 0 \<and> cosine [1, 0] (vr_embedding rec_d) = - 1"
proof -
  have top2: "query [1, 0] 2 (Some ''a.pdf'') stored_vectors = [rec_a, rec_c]"
    by (simp add: query_def passes_filter_def rank_key_def cosine_def dot_def less_eq_prod_def
        rec_a_def rec_b_def rec_c_def rec_d_def stored_vectors_def)
  have all: "query [1, 0] 5 None stored_vectors = [rec_a, rec_c, rec_b, rec_d]"
    by (simp add: query_def passes_filter_def rank_key_def cosine_def dot_def less_eq_prod_def
        rec_a_def rec_b_def rec_c_def rec_d_def stored_vectors_def)
  have sims: "cosine [1, 0] (vr_embedding rec_a) = 1" "cosine [1, 0] (vr_embedding rec_c) = 1"
    "cosine [1, 0] (vr_embedding rec_b) = 0" "cosine [1, 0] (vr_embedding rec_d) = - 1"
    by (simp_all add: cosine_def dot_def rec_a_def rec_b_def rec_c_def rec_d_def stored_vectors_def)
  from query_top_k_ranked [of "[1, 0]" 2 "Some ''a.pdf''" stored_vectors] top2 all sims
  show ?thesis
    by (simp add: rec_a_def rec_c_def)
qed

subsection \<open>Answering\<close>

lemma fit_budget_fits: "length (assemble_context (fit_budget b rs)) \<le> b"
proof (induction b rs rule: fit_budget.induct)
  case (1 b rs)
  then show ?case
    by (subst fit_budget.simps) simp
qed

lemma fit_budget_prefix: "\<exists>n. fit_budget b rs = take n rs"
proof (induction b rs rule: fit_budget.induct)
  case (1 b rs)
  show ?case
  proof (cases "length (assemble_context rs) \<le> b")
    case True
    then have "fit_budget b rs = take (length rs) rs"
      by (subst fit_budget.simps) simp
    then show ?thesis ..
  next
    case False
    with 1 obtain n where "fit_budget b (butlast rs) = take n (butlast rs)"
      by blast
    with False have "fit_budget b rs = take (min n (length rs - 1)) rs"
      by (subst fit_budget.simps) (simp add: butlast_conv_take)
    then show ?thesis ..
  qed
qed

lemma answer_with_llm_call:
  assumes "answer cfg cb question flt idx = (Inr a, calls)" and "calls \<noteq> []"
  shows "\<exists>q. embed cb 0 question = Inr q
           \<and> calls = [(question, assemble_context (fit_budget (context_budget cfg) (query q (top_k cfg) flt idx)))]
           \<and> ans_sources a = map source_of (fit_budget (context_budget cfg) (query q (top_k cfg) flt idx))"
  using assms
  by (auto simp: answer_def Let_def split: sum.splits if_splits)

lemma answer_no_results:
  assumes "embed cb 0 question = Inr q" and "query_ok cb" and "query q (top_k cfg) flt idx = []"
  shows "answer cfg cb question flt idx = (Inr no_relevant_content, [])"
  using assms by (simp add: answer_def)

lemma answer_llm_call_has_results:
  assumes "embed cb 0 question = Inr q" and "snd (answer cfg cb question flt idx) \<noteq> []"
  shows "query q (top_k cfg) flt idx \<noteq> []"
  using assms by (auto simp: answer_def Let_def split: if_splits sum.splits)

lemma find_map_update2:
  assumes "\<And>c. chat_id (u1 c) = chat_id c" and "\<And>c. chat_id (u2 c) = chat_id c"
  shows "find (\<lambda>c. chat_id c = cid)
           (map ((\<lambda>c. if chat_id c = cid then u2 c else c) \<circ>
                 (\<lambda>c. if chat_id c = cid then u1 c else c)) chs)
       = map_option (\<lambda>c. u2 (u1 c)) (find (\<lambda>c. chat_id c = cid) chs)"
  using assms by (induction chs) auto

lemma missing_answer_is_failure:
  assumes cur: "currentChat s = Some c0" and sel: "uploadedFile c0 = Some fname"
    and inp: "trim (inputMessage s) \<noteq> []" and nl: "\<not> isLoading s"
    and resp: "backend ev (requests s) (POST_ASK (trim (inputMessage s)) (Some fname)) = Resolved True (Inr j)"
    and na: "\<not> truthy (j_answer j)"
  shows "fst (handleSendMessage ev s) = Inr ()
    \<and> (\<exists>c'. currentChat (snd (handleSendMessage ev s)) = Some c'
          \<and> messages c' = clear_newest (messages c0 @ [new_message ev 0 User (trim (inputMessage s))])
               @ [(new_message ev 1 AI (cross_mark @ '' Sorry, I encountered an error: '' @
                     ''No answer received from the server'' @ ''. Please try again.''))
                   \<lparr>isNewestMessage := Some True\<rparr>])"
proof -
  from cur have f: "find (\<lambda>c. chat_id c = currentChatId s) (chats s) = Some c0"
    by (simp add: currentChat_def)
  show ?thesis
    using assms f
    by (simp add: handleSendMessage_def js_then_def js_bind_def js_modify_def try_finally_def
        try_catch_def js_throw_def updateCurrentChat_def Let_def scrollToBottom_def
        askQuestion_def call_json_def do_fetch_def js_return_def currentChat_def find_map_update2)
qed

lemma received_answer_is_shown:
  assumes cur: "currentChat s = Some c0" and sel: "uploadedFile c0 = Some fname"
    and inp: "trim (inputMessage s) \<noteq> []" and nl: "\<not> isLoading s"
    and resp: "backend ev (requests s) (POST_ASK (trim (inputMessage s)) (Some fname)) = Resolved True (Inr j)"
    and ans: "j_answer j = Some reply" and ne: "reply \<noteq> []"
  shows "fst (handleSendMessage ev s) = Inr ()
    \<and> (\<exists>c'. currentChat (snd (handleSendMessage ev s)) = Some c'
          \<and> messages c' = clear_newest (messages c0 @ [new_message ev 0 User (trim (inputMessage s))])
               @ [(new_message ev 1 AI reply)
                   \<lparr>sources := Some (case j_sources j of None \<Rightarrow> [] | Some srcs \<Rightarrow> srcs),
                     isNewestMessage := Some True\<rparr>])"
proof -
  from cur have f: "find (\<lambda>c. chat_id c = currentChatId s) (chats s) = Some c0"
    by (simp add: currentChat_def)
  show ?thesis
    using assms f
    by (simp add: handleSendMessage_def js_then_def js_bind_def js_modify_def try_finally_def
        try_catch_def js_throw_def updateCurrentChat_def Let_def scrollToBottom_def truthy_def or_else_def
        askQuestion_def call_json_def do_fetch_def js_return_def currentChat_def find_map_update2)
qed

text \<open>
  Claim C5. When \<^verbatim>\<open>answer\<close> returns an Answer for which the LLM was called, the LLM was
  called once, with a context assembled from a prefix of the ranked query results that
  fits the context budget, and the Answer's sources are the filename and chunk metadata of
  exactly the chunks of that prefix. In \<^verbatim>\<open>handleSendMessage\<close>, a response with a
  non-empty \<^verbatim>\<open>answer\<close> is appended as an AI message with the response's sources, and a
  response without one is a failure: the chat ends with the error message instead.
\<close>

theorem answer_sources_are_context_chunks:
  "(answer cfg cb question flt idx = (Inr a, calls) \<and> calls \<noteq> [] \<longrightarrow>
      (\<exists>q n. embed cb 0 question = Inr q
         \<and> calls = [(question, assemble_context (take n (query q (top_k cfg) flt idx)))]
         \<and> ans_sources a = map source_of (take n (query q (top_k cfg) flt idx))
         \<and> length (assemble_context (take n (query q (top_k cfg) flt idx))) \<le> context_budget cfg))
   \<and> (currentChat s = Some c0 \<and> uploadedFile c0 = Some fname \<and> trim (inputMessage s) \<noteq> []
        \<and> \<not> isLoading s
        \<and> backend ev (requests s) (POST_ASK (trim (inputMessage s)) (Some fname)) = Resolved True (Inr j) \<longrightarrow>
        fst (handleSendMessage ev s) = Inr ()
        \<and> (\<not> truthy (j_answer j) \<longrightarrow>
             (\<exists>c'. currentChat (snd (handleSendMessage ev s)) = Some c'
                \<and> messages c' = clear_newest (messages c0 @ [new_message ev 0 User (trim (inputMessage s))])
                     @ [(new_message ev 1 AI (cross_mark @ '' Sorry, I encountered an error: '' @
                           ''No answer received from the server'' @ ''. Please try again.''))
                         \<lparr>isNewestMessage := Some True\<rparr>]))
        \<and> (\<forall>reply. j_answer j = Some reply \<and> reply \<noteq> [] \<longrightarrow>
             (\<exists>c'. currentChat (snd (handleSendMessage ev s)) = Some c'
                \<and> messages c' = clear_newest (messages c0 @ [new_message ev 0 User (trim (inputMessage s))])
                     @ [(new_message ev 1 AI reply)
                         \<lparr>sources := Some (case j_sources j of None \<Rightarrow> [] | Some srcs \<Rightarrow> srcs),
                           isNewestMessage := Some True\<rparr>])))"
proof (intro conjI allI impI)
  assume called: "answer cfg cb question flt idx = (Inr a, calls) \<and> calls \<noteq> []"
  then obtain q where q: "embed cb 0 question = Inr q"
    and calls: "calls = [(question, assemble_context
                  (fit_budget (context_budget cfg) (query q (top_k cfg) flt idx)))]"
    and srcs: "ans_sources a = map source_of
                  (fit_budget (context_budget cfg) (query q (top_k cfg) flt idx))"
    using answer_with_llm_call [of cfg cb question flt idx a calls] by blast
  obtain n where n: "fit_budget (context_budget cfg) (query q (top_k cfg) flt idx)
                       = take n (query q (top_k cfg) flt idx)"
    using fit_budget_prefix by blast
  have "length (assemble_context (take n (query q (top_k cfg) flt idx))) \<le> context_budget cfg"
    using fit_budget_fits [of "context_budget cfg" "query q (top_k cfg) flt idx"] n by simp
  with q calls srcs n
  show "\<exists>q n. embed cb 0 question = Inr q
         \<and> calls = [(question, assemble_context (take n (query q (top_k cfg) flt idx)))]
         \<and> ans_sources a = map source_of (take n (query q (top_k cfg) flt idx))
         \<and> length (assemble_context (take n (query q (top_k cfg) flt idx))) \<le> context_budget cfg"
    by auto
next
  assume asked: "currentChat s = Some c0 \<and> uploadedFile c0 = Some fname \<and> trim (inputMessage s) \<noteq> []
        \<and> \<not> isLoading s
        \<and> backend ev (requests s) (POST_ASK (trim (inputMessage s)) (Some fname)) = Resolved True (Inr j)"
  show "fst (handleSendMessage ev s) = Inr ()"
  proof (cases "truthy (j_answer j)")
    case True
    then obtain reply where "j_answer j = Some reply" and "reply \<noteq> []"
      by (auto simp: truthy_def split: option.splits)
    with asked received_answer_is_shown [of s c0 fname ev j reply] show ?thesis
      by blast
  next
    case False
    with asked missing_answer_is_failure [of s c0 fname ev j] show ?thesis
      by blast
  qed
  { assume "\<not> truthy (j_answer j)"
    with asked missing_answer_is_failure [of s c0 fname ev j]
    show "\<exists>c'. currentChat (snd (handleSendMessage ev s)) = Some c'
                \<and> messages c' = clear_newest (messages c0 @ [new_message ev 0 User (trim (inputMessage s))])
                     @ [(new_message ev 1 AI (cross_mark @ '' Sorry, I encountered an error: '' @
                           ''No answer received from the server'' @ ''. Please try again.''))
                         \<lparr>isNewestMessage := Some True\<rparr>]"
      by blast }
  { fix reply
    assume "j_answer j = Some reply \<and> reply \<noteq> []"
    with asked received_answer_is_shown [of s c0 fname ev j reply]
    show "\<exists>c'. currentChat (snd (handleSendMessage ev s)) = Some c'
                \<and> messages c' = clear_newest (messages c0 @ [new_message ev 0 User (trim (inputMessage s))])
                     @ [(new_message ev 1 AI reply)
                         \<lparr>sources := Some (case j_sources j of None \<Rightarrow> [] | Some srcs \<Rightarrow> srcs),
                           isNewestMessage := Some True\<rparr>]"
      by blast }
qed

theorem answer_sources_are_context_chunks_witness:
  "query [1, 0] 2 (Some ''a.pdf'') stored_vectors = [rec_a, rec_c]
   \<and> answer tight_config working ''q'' (Some ''a.pdf'') stored_vectors
       = (Inr \<lparr>ans_text = ''From the context: alpha'', ans_sources = [source_of rec_a]\<rparr>,
          [(''q'', ''alpha'')])
   \<and> fst (handleSendMessage env_ok asking_state) = Inr ()
   \<and> (\<exists>c'. currentChat (snd (handleSendMessage env_ok asking_state)) = Some c'
         \<and> messages c' =
             clear_newest ([greeting] @ [new_message env_ok 0 User ''why?''])
             @ [(new_message env_ok 1 AI (cross_mark @ '' Sorry, I encountered an error: '' @
                   ''No answer received from the server'' @ ''. Please try again.''))
                 \<lparr>isNewestMessage := Some True\<rparr>])"
proof -
  have retrieved: "query [1, 0] 2 (Some ''a.pdf'') stored_vectors = [rec_a, rec_c]"
    by (simp add: query_def passes_filter_def rank_key_def cosine_def dot_def less_eq_prod_def
        rec_a_def rec_b_def rec_c_def rec_d_def stored_vectors_def)
  have answered: "answer tight_config working ''q'' (Some ''a.pdf'') stored_vectors
       = (Inr \<lparr>ans_text = ''From the context: alpha'', ans_sources = [source_of rec_a]\<rparr>,
          [(''q'', ''alpha'')])"
    by (simp add: answer_def Let_def assemble_context_def source_of_def working_def
        tight_config_def query_def passes_filter_def rank_key_def cosine_def dot_def less_eq_prod_def
        rec_a_def rec_b_def rec_c_def rec_d_def stored_vectors_def
        fit_budget.simps)
  have cur: "currentChat asking_state
       = Some \<lparr>chat_id = 1, title = ''New Chat'', messages = [greeting],
               uploadedFile = Some ''paper.pdf'', createdAt = 0\<rparr>"
    by (simp add: asking_state_def initial_state_def currentChat_def)
  have typed: "trim (inputMessage asking_state) = ''why?''"
    by (simp add: asking_state_def initial_state_def trim_def js_whitespace_def)
  have idle: "\<not> isLoading asking_state"
    by (simp add: asking_state_def initial_state_def)
  have reply: "backend env_ok (requests asking_state) (POST_ASK ''why?'' (Some ''paper.pdf''))
       = Resolved True (Inr empty_json)"
    by (simp add: env_ok_def)
  have none: "\<not> truthy (j_answer empty_json)"
    by (simp add: truthy_def empty_json_def)
  from answer_sources_are_context_chunks
         [of tight_config working "''q''" "Some ''a.pdf''" stored_vectors
             "\<lparr>ans_text = ''From the context: alpha'', ans_sources = [source_of rec_a]\<rparr>"
             "[(''q'', ''alpha'')]" asking_state
             "\<lparr>chat_id = 1, title = ''New Chat'', messages = [greeting],
               uploadedFile = Some ''paper.pdf'', createdAt = 0\<rparr>"
             "''paper.pdf''" env_ok empty_json]
       cur typed idle reply none
  have "fst (handleSendMessage env_ok asking_state) = Inr ()
   \<and> (\<exists>c'. currentChat (snd (handleSendMessage env_ok asking_state)) = Some c'
         \<and> messages c' =
             clear_newest ([greeting] @ [new_message env_ok 0 User ''why?''])
             @ [(new_message env_ok 1 AI (cross_mark @ '' Sorry, I encountered an error: '' @
                   ''No answer received from the server'' @ ''. Please try again.''))
                 \<lparr>isNewestMessage := Some True\<rparr>])"
    by simp
  with retrieved answered show ?thesis
    by simp
qed

text \<open>
  Claim C6. When the embedding of the question succeeds, the index answers and the query
  returns no record, \<^verbatim>\<open>answer\<close> returns the fixed "no relevant content" answer and the
  list of LLM calls is empty. Conversely, an LLM call is made only after a query that
  returned at least one record.
\<close>

theorem no_results_no_llm_call:
  "(embed cb 0 question = Inr q \<and> query_ok cb \<and> query q (top_k cfg) flt idx = [] \<longrightarrow>
      answer cfg cb question flt idx = (Inr no_relevant_content, []))
   \<and> (embed cb 0 question = Inr q \<and> snd (answer cfg cb question flt idx) \<noteq> [] \<longrightarrow>
        query q (top_k cfg) flt idx \<noteq> [])"
proof (intro conjI impI)
  assume "embed cb 0 question = Inr q \<and> query_ok cb \<and> query q (top_k cfg) flt idx = []"
  then show "answer cfg cb question flt idx = (Inr no_relevant_content, [])"
    by (simp add: answer_no_results)
next
  assume "embed cb 0 question = Inr q \<and> snd (answer cfg cb question flt idx) \<noteq> []"
  then show "query q (top_k cfg) flt idx \<noteq> []"
    using answer_llm_call_has_results [of cb question q cfg flt idx] by blast
qed

theorem no_results_no_llm_call_witness:
  "embed working 0 ''unrelated question'' = Inr [1, 0] \<and> query_ok working
   \<and> query [1, 0] (top_k tight_config) (Some ''doc_with_no_match'') stored_vectors = []
   \<and> answer tight_config working ''unrelated question'' (Some ''doc_with_no_match'') stored_vectors
       = (Inr no_relevant_content, [])"
proof -
  have embedded: "embed working 0 ''unrelated question'' = Inr [1, 0]" and up: "query_ok working"
    by (simp_all add: working_def)
  have no_match: "query [1, 0] (top_k tight_config) (Some ''doc_with_no_match'') stored_vectors = []"
    by (simp add: query_def passes_filter_def rank_key_def cosine_def dot_def less_eq_prod_def
        rec_a_def rec_b_def rec_c_def rec_d_def stored_vectors_def tight_config_def)
  from no_results_no_llm_call
         [of working "''unrelated question''" "[1, 0]" tight_config "Some ''doc_with_no_match''"
             stored_vectors]
       embedded up no_match
  show ?thesis
    by simp
qed

subsection \<open>Ingestion\<close>

lemma embed_and_upsert_first_failure:
  assumes "i < length chunks"
    and "\<forall>j<i. (\<exists>v. embed cb (n + j) (ch_text (chunks ! j)) = Inr v) \<and> upsert_ok cb (n + j)"
  shows "(\<forall>msg. embed cb (n + i) (ch_text (chunks ! i)) = Inl msg \<longrightarrow>
            fst (embed_and_upsert cb f chunks n idx) = Inl (Embedding, msg))
       \<and> ((\<exists>v. embed cb (n + i) (ch_text (chunks ! i)) = Inr v) \<and> \<not> upsert_ok cb (n + i) \<longrightarrow>
            fst (embed_and_upsert cb f chunks n idx) = Inl (Upsert, ''IndexUnavailable''))"
  using assms
proof (induction chunks arbitrary: i n idx)
  case Nil
  then show ?case by simp
next
  case (Cons c cs)
  show ?case
  proof (cases i)
    case 0
    then show ?thesis
      by (auto split: sum.splits)
  next
    case (Suc i')
    from Cons.prems(2) Suc have head: "(\<exists>v. embed cb n (ch_text c) = Inr v) \<and> upsert_ok cb n"
      by force
    have rest: "\<forall>j<i'. (\<exists>v. embed cb (Suc n + j) (ch_text (cs ! j)) = Inr v) \<and> upsert_ok cb (Suc n + j)"
    proof (intro allI impI)
      fix j
      assume "j < i'"
      then have "Suc j < i"
        using Suc by simp
      with Cons.prems(2) show "(\<exists>v. embed cb (Suc n + j) (ch_text (cs ! j)) = Inr v) \<and> upsert_ok cb (Suc n + j)"
        by force
    qed
    from Cons.prems(1) Suc have "i' < length cs"
      by simp
    from Cons.IH [OF this rest] head Suc show ?thesis
      by (auto split: sum.splits)
  qed
qed

lemma ingest_failure_row:
  assumes "fst (ingest cb f raw cs) = StageFailure stg msg"
  shows "\<exists>d. registry (snd (ingest cb f raw cs)) f = Some d \<and> doc_status d = ErrorStatus stg msg"
  using assms
  by (auto simp: ingest_def Let_def compensate_def set_status_def restart_row_def
      mark_vectorized_def split: if_splits sum.splits prod.splits option.splits)

lemma ingest_failure_index:
  assumes "fst (ingest cb f raw cs) = StageFailure stg msg" and "delete_ok cb 1"
  shows "\<forall>r \<in> set (index (snd (ingest cb f raw cs))). vr_document r \<noteq> f"
  using assms
  by (auto simp: ingest_def Let_def compensate_def set_status_def restart_row_def
      mark_vectorized_def delete_document_def
      split: if_splits sum.splits prod.splits option.splits)

lemma ingest_early_failures:
  assumes idle: "\<not> row_in_flight f cs"
  shows "(\<not> delete_ok cb 0 \<longrightarrow> fst (ingest cb f raw cs) = StageFailure Cleanup ''IndexUnavailable'')
    \<and> (delete_ok cb 0 \<longrightarrow>
         (\<forall>msg. extractor cb raw = Inl msg \<longrightarrow> fst (ingest cb f raw cs) = StageFailure Extraction msg)
       \<and> (\<forall>extracted msg. extractor cb raw = Inr extracted \<and> chunker cb extracted = Inl msg \<longrightarrow>
            fst (ingest cb f raw cs) = StageFailure Chunking msg))"
  using idle
  by (auto simp: ingest_def Let_def compensate_def delete_document_def)

lemma ingest_embedding_outcome:
  assumes "\<not> row_in_flight f cs" and "delete_ok cb 0"
    and "extractor cb raw = Inr extracted" and "chunker cb extracted = Inr chunks"
  shows "fst (ingest cb f raw cs) =
           (case fst (embed_and_upsert cb f chunks 0 (filter (\<lambda>r. vr_document r \<noteq> f) (index cs))) of
              Inl (stg, msg) \<Rightarrow> StageFailure stg msg
            | Inr n \<Rightarrow> Completed Vectorized n)"
  using assms
  by (simp add: ingest_def Let_def compensate_def delete_document_def set_status_def
      restart_row_def split: sum.splits prod.splits)

lemma ingest_chunk_failure:
  assumes idle: "\<not> row_in_flight f cs" and del: "delete_ok cb 0"
    and ex: "extractor cb raw = Inr extracted" and ch: "chunker cb extracted = Inr chunks"
    and i: "i < length chunks"
    and before: "\<forall>j<i. (\<exists>v. embed cb j (ch_text (chunks ! j)) = Inr v) \<and> upsert_ok cb j"
  shows "(\<forall>msg. embed cb i (ch_text (chunks ! i)) = Inl msg \<longrightarrow>
            fst (ingest cb f raw cs) = StageFailure Embedding msg)
       \<and> ((\<exists>v. embed cb i (ch_text (chunks ! i)) = Inr v) \<and> \<not> upsert_ok cb i \<longrightarrow>
            fst (ingest cb f raw cs) = StageFailure Upsert ''IndexUnavailable'')"
proof -
  from before have "\<forall>j<i. (\<exists>v. embed cb (0 + j) (ch_text (chunks ! j)) = Inr v) \<and> upsert_ok cb (0 + j)"
    by simp
  from embed_and_upsert_first_failure [OF i this, of f "filter (\<lambda>r. vr_document r \<noteq> f) (index cs)"]
    ingest_embedding_outcome [OF idle del ex ch]
  show ?thesis
    by auto
qed

lemma no_vectors_no_results:
  assumes "\<forall>r \<in> set idx. vr_document r \<noteq> f"
  shows "query q k (Some f) idx = [] \<and> (\<forall>r \<in> set (query q k None idx). vr_document r \<noteq> f)"
proof
  show "query q k (Some f) idx = []"
  proof (rule ccontr)
    assume "query q k (Some f) idx \<noteq> []"
    then have "hd (query q k (Some f) idx) \<in> set (query q k (Some f) idx)"
      by (rule hd_in_set)
    then obtain r where "r \<in> set (query q k (Some f) idx)" ..
    with query_subset [of q k "Some f" idx]
    have "r \<in> set idx" and "vr_document r = f"
      by (auto simp: passes_filter_def)
    with assms show False
      by blast
  qed
  show "\<forall>r \<in> set (query q k None idx). vr_document r \<noteq> f"
    using query_subset [of q k None idx] assms by auto
qed

text \<open>
  Claim C1, as the model has it. Whenever \<^verbatim>\<open>ingest\<close> ends in the failure of a stage, the
  document's row has status \<open>ErrorStatus\<close> with that stage (so it is not \<open>Vectorized\<close>);
  and when the vector database accepts the compensating delete, the index is left
  without any vector of the document and no query, filtered on the document or not,
  returns a vector of it. For a filename that is not in flight, the failure of a
  collaborator does end in that outcome: the refusal of the first delete (\<open>Cleanup\<close>), the
  failure of the Extractor, of the Chunker, and, when chunk \<open>i\<close> is the first whose
  embedding or vector write fails (the \<open>i\<close> chunks before it were embedded and written),
  the failure of the Embedder on it (\<open>Embedding\<close>) or the refusal of its write (\<open>Upsert\<close>).
\<close>

theorem ingest_compensation:
  "(\<forall>stg msg. fst (ingest cb f raw cs) = StageFailure stg msg \<longrightarrow>
      (\<exists>d. registry (snd (ingest cb f raw cs)) f = Some d
            \<and> doc_status d = ErrorStatus stg msg \<and> doc_status d \<noteq> Vectorized)
      \<and> (delete_ok cb 1 \<longrightarrow>
            (\<forall>r \<in> set (index (snd (ingest cb f raw cs))). vr_document r \<noteq> f)
          \<and> query q k (Some f) (index (snd (ingest cb f raw cs))) = []
          \<and> (\<forall>r \<in> set (query q k None (index (snd (ingest cb f raw cs)))). vr_document r \<noteq> f)))
   \<and> (\<not> row_in_flight f cs \<longrightarrow>
        (\<not> delete_ok cb 0 \<longrightarrow> fst (ingest cb f raw cs) = StageFailure Cleanup ''IndexUnavailable'')
      \<and> (delete_ok cb 0 \<longrightarrow>
           (\<forall>msg. extractor cb raw = Inl msg \<longrightarrow>
              fst (ingest cb f raw cs) = StageFailure Extraction msg)
         \<and> (\<forall>extracted msg. extractor cb raw = Inr extracted \<and> chunker cb extracted = Inl msg \<longrightarrow>
              fst (ingest cb f raw cs) = StageFailure Chunking msg)
         \<and> (\<forall>extracted chunks i. extractor cb raw = Inr extracted \<and> chunker cb extracted = Inr chunks
              \<and> i < length chunks
              \<and> (\<forall>j<i. (\<exists>v. embed cb j (ch_text (chunks ! j)) = Inr v) \<and> upsert_ok cb j) \<longrightarrow>
              (\<forall>msg. embed cb i (ch_text (chunks ! i)) = Inl msg \<longrightarrow>
                 fst (ingest cb f raw cs) = StageFailure Embedding msg)
            \<and> ((\<exists>v. embed cb i (ch_text (chunks ! i)) = Inr v) \<and> \<not> upsert_ok cb i \<longrightarrow>
                 fst (ingest cb f raw cs) = StageFailure Upsert ''IndexUnavailable''))))"
proof (intro conjI allI impI)
  fix stg msg
  assume failed: "fst (ingest cb f raw cs) = StageFailure stg msg"
  from ingest_failure_row [OF failed]
  show "\<exists>d. registry (snd (ingest cb f raw cs)) f = Some d
            \<and> doc_status d = ErrorStatus stg msg \<and> doc_status d \<noteq> Vectorized"
    by auto
  assume "delete_ok cb 1"
  with failed have none: "\<forall>r \<in> set (index (snd (ingest cb f raw cs))). vr_document r \<noteq> f"
    by (rule ingest_failure_index)
  then show "\<forall>r \<in> set (index (snd (ingest cb f raw cs))). vr_document r \<noteq> f" .
  from no_vectors_no_results [OF none]
  show "query q k (Some f) (index (snd (ingest cb f raw cs))) = []"
    and "\<forall>r \<in> set (query q k None (index (snd (ingest cb f raw cs)))). vr_document r \<noteq> f"
    by simp_all
next
  assume idle: "\<not> row_in_flight f cs" and "\<not> delete_ok cb 0"
  with ingest_early_failures [OF idle, of cb raw]
  show "fst (ingest cb f raw cs) = StageFailure Cleanup ''IndexUnavailable''"
    by blast
next
  fix msg
  assume idle: "\<not> row_in_flight f cs" and "delete_ok cb 0" and "extractor cb raw = Inl msg"
  with ingest_early_failures [OF idle, of cb raw]
  show "fst (ingest cb f raw cs) = StageFailure Extraction msg"
    by blast
next
  fix extracted msg
  assume idle: "\<not> row_in_flight f cs" and "delete_ok cb 0"
    and "extractor cb raw = Inr extracted \<and> chunker cb extracted = Inl msg"
  with ingest_early_failures [OF idle, of cb raw]
  show "fst (ingest cb f raw cs) = StageFailure Chunking msg"
    by blast
next
  fix extracted chunks i msg
  assume idle: "\<not> row_in_flight f cs" and del: "delete_ok cb 0"
    and run: "extractor cb raw = Inr extracted \<and> chunker cb extracted = Inr chunks
              \<and> i < length chunks
              \<and> (\<forall>j<i. (\<exists>v. embed cb j (ch_text (chunks ! j)) = Inr v) \<and> upsert_ok cb j)"
    and "embed cb i (ch_text (chunks ! i)) = Inl msg"
  with ingest_chunk_failure [OF idle del, of raw extracted chunks i]
  show "fst (ingest cb f raw cs) = StageFailure Embedding msg"
    by blast
next
  fix extracted chunks i
  assume idle: "\<not> row_in_flight f cs" and del: "delete_ok cb 0"
    and run: "extractor cb raw = Inr extracted \<and> chunker cb extracted = Inr chunks
              \<and> i < length chunks
              \<and> (\<forall>j<i. (\<exists>v. embed cb j (ch_text (chunks ! j)) = Inr v) \<and> upsert_ok cb j)"
    and "(\<exists>v. embed cb i (ch_text (chunks ! i)) = Inr v) \<and> \<not> upsert_ok cb i"
  with ingest_chunk_failure [OF idle del, of raw extracted chunks i]
  show "fst (ingest cb f raw cs) = StageFailure Upsert ''IndexUnavailable''"
    by blast
qed

theorem ingest_compensation_witness:
  "\<not> row_in_flight ''doc.pdf'' stale_core
   \<and> delete_ok failing_embedder 0 \<and> delete_ok failing_embedder 1
   \<and> extractor failing_embedder [1, 2, 3] = Inr ''abcdefg''
   \<and> chunker failing_embedder ''abcdefg'' = Inr three_chunks
   \<and> embed failing_embedder 0 ''abc'' = Inr [1, 0] \<and> upsert_ok failing_embedder 0
   \<and> embed failing_embedder 1 ''cde'' = Inr [1, 1] \<and> upsert_ok failing_embedder 1
   \<and> embed failing_embedder 2 ''efg'' = Inl ''model unavailable''
   \<and> fst (ingest failing_embedder ''doc.pdf'' [1, 2, 3] stale_core)
       = StageFailure Embedding ''model unavailable''
   \<and> index (snd (ingest failing_embedder ''doc.pdf'' [1, 2, 3] stale_core))
       = [\<lparr>vr_embedding = [1, 1], vr_document = ''other.pdf'', vr_chunk_index = 0, vr_text = ''keep''\<rparr>]
   \<and> registry (snd (ingest failing_embedder ''doc.pdf'' [1, 2, 3] stale_core)) ''doc.pdf''
       = Some \<lparr>doc_status = ErrorStatus Embedding ''model unavailable'', vector_count = 2, byte_size = 3\<rparr>
   \<and> query [1, 0] 5 (Some ''doc.pdf'')
        (index (snd (ingest failing_embedder ''doc.pdf'' [1, 2, 3] stale_core))) = []"
proof -
  note run = ingest_compensation [of failing_embedder "''doc.pdf''" "[1, 2, 3]" stale_core "[1, 0]" 5]
  have idle: "\<not> row_in_flight ''doc.pdf'' stale_core"
    by (simp add: row_in_flight_def in_flight_def stale_core_def)
  have collaborators: "delete_ok failing_embedder 0" "delete_ok failing_embedder 1"
    "extractor failing_embedder [1, 2, 3] = Inr ''abcdefg''"
    "chunker failing_embedder ''abcdefg'' = Inr three_chunks"
    "embed failing_embedder 0 ''abc'' = Inr [1, 0]" "upsert_ok failing_embedder 0"
    "embed failing_embedder 1 ''cde'' = Inr [1, 1]" "upsert_ok failing_embedder 1"
    "embed failing_embedder 2 ''efg'' = Inl ''model unavailable''"
    by (simp_all add: failing_embedder_def)
  have third: "(2::nat) < length three_chunks" "ch_text (three_chunks ! 2) = ''efg''"
    by (simp_all add: three_chunks_def)
  have before: "\<forall>j<2. (\<exists>v. embed failing_embedder j (ch_text (three_chunks ! j)) = Inr v)
                  \<and> upsert_ok failing_embedder j"
    by (simp add: failing_embedder_def)
  from run idle collaborators third before
  have outcome: "fst (ingest failing_embedder ''doc.pdf'' [1, 2, 3] stale_core)
                   = StageFailure Embedding ''model unavailable''"
    by metis
  with run collaborators(2)
  have gone: "query [1, 0] 5 (Some ''doc.pdf'')
        (index (snd (ingest failing_embedder ''doc.pdf'' [1, 2, 3] stale_core))) = []"
    by blast
  have left: "index (snd (ingest failing_embedder ''doc.pdf'' [1, 2, 3] stale_core))
       = [\<lparr>vr_embedding = [1, 1], vr_document = ''other.pdf'', vr_chunk_index = 0, vr_text = ''keep''\<rparr>]"
    by (simp add: ingest_def Let_def set_status_def compensate_def row_in_flight_def
        restart_row_def in_flight_def upsert_def
        delete_document_def failing_embedder_def three_chunks_def stale_core_def)
  have row: "registry (snd (ingest failing_embedder ''doc.pdf'' [1, 2, 3] stale_core)) ''doc.pdf''
       = Some \<lparr>doc_status = ErrorStatus Embedding ''model unavailable'', vector_count = 2, byte_size = 3\<rparr>"
    by (simp add: ingest_def Let_def set_status_def compensate_def row_in_flight_def
        restart_row_def in_flight_def upsert_def
        delete_document_def failing_embedder_def three_chunks_def stale_core_def)
  from idle collaborators outcome gone left row show ?thesis
    by simp
qed

text \<open>
  The claim as the specification words it fails: \<^verbatim>\<open>VectorIndex.delete\<close> can fail with
  \<^verbatim>\<open>IndexUnavailable\<close> (section 4.4), and when the compensating delete does, the two
  vectors written before the Embedder failed stay in the index and are returned by a
  query on the document, whose row says \<open>ErrorStatus\<close>.
\<close>

theorem ingest_compensation_counterexample:
  "fst (ingest lost_index ''doc.pdf'' [1, 2, 3] stale_core)
       = StageFailure Embedding ''model unavailable''
   \<and> registry (snd (ingest lost_index ''doc.pdf'' [1, 2, 3] stale_core)) ''doc.pdf''
       = Some \<lparr>doc_status = ErrorStatus Embedding ''model unavailable'', vector_count = 2, byte_size = 3\<rparr>
   \<and> index (snd (ingest lost_index ''doc.pdf'' [1, 2, 3] stale_core))
       = [\<lparr>vr_embedding = [1, 1], vr_document = ''other.pdf'', vr_chunk_index = 0, vr_text = ''keep''\<rparr>,
          \<lparr>vr_embedding = [1, 0], vr_document = ''doc.pdf'', vr_chunk_index = 0, vr_text = ''abc''\<rparr>,
          \<lparr>vr_embedding = [1, 1], vr_document = ''doc.pdf'', vr_chunk_index = 1, vr_text = ''cde''\<rparr>]
   \<and> length (query [1, 0] 5 (Some ''doc.pdf'')
        (index (snd (ingest lost_index ''doc.pdf'' [1, 2, 3] stale_core)))) = 2
   \<and> query [1, 0] 1 (Some ''doc.pdf'')
        (index (snd (ingest lost_index ''doc.pdf'' [1, 2, 3] stale_core)))
       = [\<lparr>vr_embedding = [1, 0], vr_document = ''doc.pdf'', vr_chunk_index = 0, vr_text = ''abc''\<rparr>]"
proof -
  have outcome: "fst (ingest lost_index ''doc.pdf'' [1, 2, 3] stale_core)
       = StageFailure Embedding ''model unavailable''"
    by (simp add: ingest_def Let_def set_status_def compensate_def row_in_flight_def
        restart_row_def in_flight_def upsert_def
        delete_document_def lost_index_def failing_embedder_def three_chunks_def stale_core_def)
  have row: "registry (snd (ingest lost_index ''doc.pdf'' [1, 2, 3] stale_core)) ''doc.pdf''
       = Some \<lparr>doc_status = ErrorStatus Embedding ''model unavailable'', vector_count = 2, byte_size = 3\<rparr>"
    by (simp add: ingest_def Let_def set_status_def compensate_def row_in_flight_def
        restart_row_def in_flight_def upsert_def
        delete_document_def lost_index_def failing_embedder_def three_chunks_def stale_core_def)
  have left: "index (snd (ingest lost_index ''doc.pdf'' [1, 2, 3] stale_core))
       = [\<lparr>vr_embedding = [1, 1], vr_document = ''other.pdf'', vr_chunk_index = 0, vr_text = ''keep''\<rparr>,
          \<lparr>vr_embedding = [1, 0], vr_document = ''doc.pdf'', vr_chunk_index = 0, vr_text = ''abc''\<rparr>,
          \<lparr>vr_embedding = [1, 1], vr_document = ''doc.pdf'', vr_chunk_index = 1, vr_text = ''cde''\<rparr>]"
    by (simp add: ingest_def Let_def set_status_def compensate_def row_in_flight_def
        restart_row_def in_flight_def upsert_def
        delete_document_def lost_index_def failing_embedder_def three_chunks_def stale_core_def)
  have nearer: "cosine [1, 0] [1, 1] \<le> cosine [1, 0] [1, 0]"
    by (simp add: cosine_def dot_def field_simps)
  have returned: "query [1, 0] 1 (Some ''doc.pdf'')
        [\<lparr>vr_embedding = [1, 1], vr_document = ''other.pdf'', vr_chunk_index = 0, vr_text = ''keep''\<rparr>,
         \<lparr>vr_embedding = [1, 0], vr_document = ''doc.pdf'', vr_chunk_index = 0, vr_text = ''abc''\<rparr>,
         \<lparr>vr_embedding = [1, 1], vr_document = ''doc.pdf'', vr_chunk_index = 1, vr_text = ''cde''\<rparr>]
       = [\<lparr>vr_embedding = [1, 0], vr_document = ''doc.pdf'', vr_chunk_index = 0, vr_text = ''abc''\<rparr>]"
    using nearer
    by (simp add: query_def passes_filter_def rank_key_def less_eq_prod_def less_prod_def insort_key.simps)
  from outcome row left returned show ?thesis
    by (simp add: query_length passes_filter_def)
qed

subsection \<open>Single flight\<close>

lemma row_in_flight_index [simp]: "row_in_flight f (cs\<lparr>index := idx\<rparr>) = row_in_flight f cs"
  by (simp add: row_in_flight_def)























end
